theory Spec2Isabelle
  imports Main "HOL-Library.Word" "HOL-Library.Multiset"
begin

section \<open>The command adapters of \<open>object patch\<close> (core/commands/object/patch.go)\<close>

subsection \<open>Values exchanged with the collaborators\<close>

text \<open>
  A Go \<open>error\<close> that is not nil is identified with its message. A call that returns
  \<open>(x, err)\<close> is a sum: \<open>Inl err\<close> when \<open>err != nil\<close>, \<open>Inr x\<close> otherwise. What a
  collaborator hands over with a nil error (the API, the files of the request, a path) is
  not nil. The request context \<open>req.Context()\<close> only carries cancellation and is left out.
\<close>

type_synonym error = string

datatype ErrorType = ErrNormal | ErrClient | ErrImplementation | ErrNotFound

text \<open>
  A resolved path is used by the handlers only through \<open>p.Cid().String()\<close>; the field
  \<open>Cid\<close> is that string. A file handed over by \<open>NextFile\<close> is its contents.
\<close>

record Path =
  Cid :: string

type_synonym File = string

datatype ParsePathOption = WithResolve bool

datatype ObjectAddLinkOption = WithCreate bool

text \<open>The interfaces \<open>coreiface.ObjectAPI\<close> and \<open>coreiface.CoreAPI\<close>, as far as patch.go calls them.\<close>

record ObjectAPI =
  AppendData :: "Path \<Rightarrow> File \<Rightarrow> error + Path"
  SetData :: "Path \<Rightarrow> File \<Rightarrow> error + Path"
  AddLink :: "Path \<Rightarrow> string \<Rightarrow> Path \<Rightarrow> ObjectAddLinkOption list \<Rightarrow> error + Path"
  RmLink :: "Path \<Rightarrow> string \<Rightarrow> error + Path"

record iface_CoreAPI =
  ParsePath :: "string \<Rightarrow> ParsePathOption list \<Rightarrow> error + Path"
  Object :: ObjectAPI

text \<open>
  The request, as far as the handlers read it: \<open>GetApi\<close> is
  \<open>req.InvocContext().GetApi()\<close>, \<open>NextFile\<close> is \<open>req.Files().NextFile()\<close> and
  \<open>Option_Bool name\<close> is \<open>req.Option(name).Bool()\<close> with its three results
  (value, found, err).
\<close>

record Request =
  GetApi :: "error + iface_CoreAPI"
  Arguments :: "string list"
  StringArguments :: "string list"
  NextFile :: "error + File"
  Option_Bool :: "string \<Rightarrow> bool \<times> bool \<times> error option"

text \<open>The output struct of the package: \<open>&Object{Hash: ...}\<close>.\<close>

record Object =
  Hash :: string

text \<open>
  A value of type \<open>interface{}\<close>: nil, a \<open>*Object\<close> (a pointer, itself nil or not),
  or a value of another dynamic type.
\<close>

datatype iface = Nil | PtrObject "Object option" | OtherValue string

subsection \<open>The response and the calls of a handler\<close>

text \<open>
  Every call a handler makes on a collaborator is recorded with what it returned, oldest
  first, so that the calls a handler makes can be talked about.
\<close>

datatype call =
    GetApi_call "error option"
  | ParsePath_call string "ParsePathOption list" "error + Path"
  | NextFile_call "error + File"
  | Option_Bool_call string "bool \<times> bool \<times> error option"
  | AppendData_call Path File "error + Path"
  | SetData_call Path File "error + Path"
  | RmLink_call Path string "error + Path"
  | AddLink_call Path string Path "ObjectAddLinkOption list" "error + Path"
  | SetError_call error ErrorType
  | SetOutput_call iface

record Response =
  calls :: "call list"
  Error :: "(error \<times> ErrorType) option"
  Output :: iface

definition called :: "call \<Rightarrow> Response \<Rightarrow> Response" where
  "called c res = res\<lparr>calls := calls res @ [c]\<rparr>"

definition SetError :: "error \<Rightarrow> ErrorType \<Rightarrow> Response \<Rightarrow> Response" where
  "SetError err code res = (called (SetError_call err code) res)\<lparr>Error := Some (err, code)\<rparr>"

definition SetOutput :: "iface \<Rightarrow> Response \<Rightarrow> Response" where
  "SetOutput v res = (called (SetOutput_call v) res)\<lparr>Output := v\<rparr>"

text \<open>A handler returns, or panics (a slice indexed out of range).\<close>

datatype outcome = Returned Response | Panicked Response

fun final :: "outcome \<Rightarrow> Response" where
  "final (Returned res) = res"
| "final (Panicked res) = res"

text \<open>\<open>xs[i]\<close> on a Go slice: \<open>None\<close> is the panic.\<close>

definition index :: "'a list \<Rightarrow> nat \<Rightarrow> 'a option" where
  "index xs i = (if i < length xs then Some (xs ! i) else None)"

fun err_of :: "error + 'a \<Rightarrow> error option" where
  "err_of (Inl err) = Some err"
| "err_of (Inr x) = None"

subsection \<open>The four handlers\<close>

definition patchAppendDataCmd_Run :: "Request \<Rightarrow> Response \<Rightarrow> outcome" where
  "patchAppendDataCmd_Run req res0 =
    (let res1 = called (GetApi_call (err_of (GetApi req))) res0 in
     case GetApi req of
       Inl err \<Rightarrow> Returned (SetError err ErrNormal res1)
     | Inr api \<Rightarrow>
        (case index (StringArguments req) 0 of
           None \<Rightarrow> Panicked res1
         | Some arg0 \<Rightarrow>
            (let r = ParsePath api arg0 [WithResolve True];
                 res2 = called (ParsePath_call arg0 [WithResolve True] r) res1 in
             case r of
               Inl err \<Rightarrow> Returned (SetError err ErrNormal res2)
             | Inr root \<Rightarrow>
                (let res3 = called (NextFile_call (NextFile req)) res2 in
                 case NextFile req of
                   Inl err \<Rightarrow> Returned (SetError err ErrNormal res3)
                 | Inr data \<Rightarrow>
                    (let p = AppendData (Object api) root data;
                         res4 = called (AppendData_call root data p) res3 in
                     case p of
                       Inl err \<Rightarrow> Returned (SetError err ErrNormal res4)
                     | Inr p \<Rightarrow> Returned (SetOutput (PtrObject (Some \<lparr>Hash = Cid p\<rparr>)) res4))))))"

definition patchSetDataCmd_Run :: "Request \<Rightarrow> Response \<Rightarrow> outcome" where
  "patchSetDataCmd_Run req res0 =
    (let res1 = called (GetApi_call (err_of (GetApi req))) res0 in
     case GetApi req of
       Inl err \<Rightarrow> Returned (SetError err ErrNormal res1)
     | Inr api \<Rightarrow>
        (case index (StringArguments req) 0 of
           None \<Rightarrow> Panicked res1
         | Some arg0 \<Rightarrow>
            (let r = ParsePath api arg0 [WithResolve True];
                 res2 = called (ParsePath_call arg0 [WithResolve True] r) res1 in
             case r of
               Inl err \<Rightarrow> Returned (SetError err ErrNormal res2)
             | Inr root \<Rightarrow>
                (let res3 = called (NextFile_call (NextFile req)) res2 in
                 case NextFile req of
                   Inl err \<Rightarrow> Returned (SetError err ErrNormal res3)
                 | Inr data \<Rightarrow>
                    (let p = SetData (Object api) root data;
                         res4 = called (SetData_call root data p) res3 in
                     case p of
                       Inl err \<Rightarrow> Returned (SetError err ErrNormal res4)
                     | Inr p \<Rightarrow> Returned (SetOutput (PtrObject (Some \<lparr>Hash = Cid p\<rparr>)) res4))))))"

definition patchRmLinkCmd_Run :: "Request \<Rightarrow> Response \<Rightarrow> outcome" where
  "patchRmLinkCmd_Run req res0 =
    (let res1 = called (GetApi_call (err_of (GetApi req))) res0 in
     case GetApi req of
       Inl err \<Rightarrow> Returned (SetError err ErrNormal res1)
     | Inr api \<Rightarrow>
        (case index (Arguments req) 0 of
           None \<Rightarrow> Panicked res1
         | Some arg0 \<Rightarrow>
            (let r = ParsePath api arg0 [WithResolve True];
                 res2 = called (ParsePath_call arg0 [WithResolve True] r) res1 in
             case r of
               Inl err \<Rightarrow> Returned (SetError err ErrNormal res2)
             | Inr root \<Rightarrow>
                (case index (Arguments req) 1 of
                   None \<Rightarrow> Panicked res2
                 | Some link \<Rightarrow>
                    (let p = RmLink (Object api) root link;
                         res3 = called (RmLink_call root link p) res2 in
                     case p of
                       Inl err \<Rightarrow> Returned (SetError err ErrNormal res3)
                     | Inr p \<Rightarrow> Returned (SetOutput (PtrObject (Some \<lparr>Hash = Cid p\<rparr>)) res3))))))"

definition patchAddLinkCmd_Run :: "Request \<Rightarrow> Response \<Rightarrow> outcome" where
  "patchAddLinkCmd_Run req res0 =
    (let res1 = called (GetApi_call (err_of (GetApi req))) res0 in
     case GetApi req of
       Inl err \<Rightarrow> Returned (SetError err ErrNormal res1)
     | Inr api \<Rightarrow>
        (case index (Arguments req) 0 of
           None \<Rightarrow> Panicked res1
         | Some arg0 \<Rightarrow>
            (let r = ParsePath api arg0 [WithResolve True];
                 res2 = called (ParsePath_call arg0 [WithResolve True] r) res1 in
             case r of
               Inl err \<Rightarrow> Returned (SetError err ErrNormal res2)
             | Inr root \<Rightarrow>
                (case index (Arguments req) 1 of
                   None \<Rightarrow> Panicked res2
                 | Some name \<Rightarrow>
                    (case index (Arguments req) 2 of
                       None \<Rightarrow> Panicked res2
                     | Some arg2 \<Rightarrow>
                        (let c = ParsePath api arg2 [WithResolve True];
                             res3 = called (ParsePath_call arg2 [WithResolve True] c) res2 in
                         case c of
                           Inl err \<Rightarrow> Returned (SetError err ErrNormal res3)
                         | Inr child \<Rightarrow>
                            (let res4 = called (Option_Bool_call ''create'' (Option_Bool req ''create'')) res3 in
                             case Option_Bool req ''create'' of
                               (create, found, Some err) \<Rightarrow> Returned (SetError err ErrNormal res4)
                             | (create, found, None) \<Rightarrow>
                                (let p = AddLink (Object api) root name child [WithCreate create];
                                     res5 = called (AddLink_call root name child [WithCreate create] p) res4 in
                                 case p of
                                   Inl err \<Rightarrow> Returned (SetError err ErrNormal res5)
                                 | Inr p \<Rightarrow>
                                     Returned (SetOutput (PtrObject (Some \<lparr>Hash = Cid p\<rparr>)) res5)))))))))"

subsection \<open>The text marshaler\<close>

text \<open>
  What a marshaler gives back: a reader over a string, an error, or a panic (a nil
  \<open>*Object\<close> dereferenced).
\<close>

datatype marshaled = Reader string | MarshalError error | MarshalPanic

text \<open>
  \<open>unwrapOutput\<close> and \<open>e.TypeErr\<close> are declared outside patch.go; they are parameters.
  When the type assertion fails, \<open>o\<close> is the nil \<open>*Object\<close>.
\<close>

definition objectMarshaler ::
  "(iface \<Rightarrow> error + iface) \<Rightarrow> (iface \<Rightarrow> iface \<Rightarrow> error) \<Rightarrow> Response \<Rightarrow> marshaled" where
  "objectMarshaler unwrapOutput TypeErr res =
    (case unwrapOutput (Output res) of
       Inl err \<Rightarrow> MarshalError err
     | Inr v \<Rightarrow>
        (case v of
           PtrObject None \<Rightarrow> MarshalPanic
         | PtrObject (Some obj) \<Rightarrow> Reader (Hash obj @ [CHR 0x0A])
         | _ \<Rightarrow> MarshalError (TypeErr (PtrObject None) v)))"

subsection \<open>The commands\<close>

datatype ArgumentType = ArgString | ArgFile

record Argument =
  arg_Name :: string
  arg_Type :: ArgumentType
  Required :: bool
  Variadic :: bool
  SupportsStdin :: bool
  arg_Description :: string

definition StringArg :: "string \<Rightarrow> bool \<Rightarrow> bool \<Rightarrow> string \<Rightarrow> Argument" where
  "StringArg name required variadic description =
    \<lparr>arg_Name = name, arg_Type = ArgString, Required = required, Variadic = variadic,
     SupportsStdin = False, arg_Description = description\<rparr>"

definition FileArg :: "string \<Rightarrow> bool \<Rightarrow> bool \<Rightarrow> string \<Rightarrow> Argument" where
  "FileArg name required variadic description =
    \<lparr>arg_Name = name, arg_Type = ArgFile, Required = required, Variadic = variadic,
     SupportsStdin = False, arg_Description = description\<rparr>"

definition EnableStdin :: "Argument \<Rightarrow> Argument" where
  "EnableStdin a = a\<lparr>SupportsStdin := True\<rparr>"

datatype OptionKind = Bool | String | Int

text \<open>
  \<open>cmdkit.BoolOption(names...)\<close>: the last string is the description, the strings before
  it are the names of the option.
\<close>

record cmdkit_Option =
  opt_Names :: "string list"
  opt_Kind :: OptionKind
  opt_Description :: string

definition BoolOption :: "string list \<Rightarrow> cmdkit_Option" where
  "BoolOption names =
    \<lparr>opt_Names = butlast names, opt_Kind = Bool, opt_Description = last names\<rparr>"

datatype EncodingType = Text | JSON | XML

text \<open>
  A \<open>cmds.Command\<close>, without its help text and its \<open>Type\<close>. The two Go maps are
  association lists in the order of the source; \<open>map_of\<close> looks a key up. A command
  without a handler has \<open>Run = None\<close>.
\<close>

datatype Command = Command
  (cmd_Arguments: "Argument list")
  (Options: "cmdkit_Option list")
  (Run: "(Request \<Rightarrow> Response \<Rightarrow> outcome) option")
  (Marshalers: "(EncodingType \<times> (Response \<Rightarrow> marshaled)) list")
  (Subcommands: "(string \<times> Command) list")

definition patchAppendDataCmd ::
  "(iface \<Rightarrow> error + iface) \<Rightarrow> (iface \<Rightarrow> iface \<Rightarrow> error) \<Rightarrow> Command" where
  "patchAppendDataCmd unwrapOutput TypeErr = Command
    [StringArg ''root'' True False ''The hash of the node to modify.'',
     EnableStdin (FileArg ''data'' True False ''Data to append.'')]
    []
    (Some patchAppendDataCmd_Run)
    [(Text, objectMarshaler unwrapOutput TypeErr)]
    []"

definition patchSetDataCmd ::
  "(iface \<Rightarrow> error + iface) \<Rightarrow> (iface \<Rightarrow> iface \<Rightarrow> error) \<Rightarrow> Command" where
  "patchSetDataCmd unwrapOutput TypeErr = Command
    [StringArg ''root'' True False ''The hash of the node to modify.'',
     EnableStdin (FileArg ''data'' True False ''The data to set the object to.'')]
    []
    (Some patchSetDataCmd_Run)
    [(Text, objectMarshaler unwrapOutput TypeErr)]
    []"

definition patchRmLinkCmd ::
  "(iface \<Rightarrow> error + iface) \<Rightarrow> (iface \<Rightarrow> iface \<Rightarrow> error) \<Rightarrow> Command" where
  "patchRmLinkCmd unwrapOutput TypeErr = Command
    [StringArg ''root'' True False ''The hash of the node to modify.'',
     StringArg ''link'' True False ''Name of the link to remove.'']
    []
    (Some patchRmLinkCmd_Run)
    [(Text, objectMarshaler unwrapOutput TypeErr)]
    []"

definition patchAddLinkCmd ::
  "(iface \<Rightarrow> error + iface) \<Rightarrow> (iface \<Rightarrow> iface \<Rightarrow> error) \<Rightarrow> Command" where
  "patchAddLinkCmd unwrapOutput TypeErr = Command
    [StringArg ''root'' True False ''The hash of the node to modify.'',
     StringArg ''name'' True False ''Name of link to create.'',
     StringArg ''ref'' True False ''IPFS object to add link to.'']
    [BoolOption [''create'', ''p'', ''Create intermediary nodes.'']]
    (Some patchAddLinkCmd_Run)
    [(Text, objectMarshaler unwrapOutput TypeErr)]
    []"

definition ObjectPatchCmd ::
  "(iface \<Rightarrow> error + iface) \<Rightarrow> (iface \<Rightarrow> iface \<Rightarrow> error) \<Rightarrow> Command" where
  "ObjectPatchCmd unwrapOutput TypeErr = Command
    []
    []
    None
    []
    [(''append-data'', patchAppendDataCmd unwrapOutput TypeErr),
     (''add-link'', patchAddLinkCmd unwrapOutput TypeErr),
     (''rm-link'', patchRmLinkCmd unwrapOutput TypeErr),
     (''set-data'', patchSetDataCmd unwrapOutput TypeErr)]"

subsection \<open>Invocations and their calls\<close>

text \<open>The framework hands every invocation a response of its own, still empty.\<close>

definition NewResponse :: Response where
  "NewResponse = \<lparr>calls = [], Error = None, Output = Nil\<rparr>"

text \<open>The error a call on a collaborator returned, if it returned one.\<close>

fun failed :: "call \<Rightarrow> error option" where
  "failed (GetApi_call e) = e"
| "failed (ParsePath_call a opts r) = err_of r"
| "failed (NextFile_call r) = err_of r"
| "failed (Option_Bool_call n r) = snd (snd r)"
| "failed (AppendData_call root d r) = err_of r"
| "failed (SetData_call root d r) = err_of r"
| "failed (RmLink_call root l r) = err_of r"
| "failed (AddLink_call root n child opts r) = err_of r"
| "failed (SetError_call e code) = None"
| "failed (SetOutput_call v) = None"

text \<open>The method of the Object sub-API that a call is, if it is one, and the path it returned.\<close>

fun engine_op :: "call \<Rightarrow> string option" where
  "engine_op (AppendData_call root d r) = Some ''AppendData''"
| "engine_op (SetData_call root d r) = Some ''SetData''"
| "engine_op (RmLink_call root l r) = Some ''RmLink''"
| "engine_op (AddLink_call root n child opts r) = Some ''AddLink''"
| "engine_op c = None"

definition is_engine :: "call \<Rightarrow> bool" where
  "is_engine c = (engine_op c \<noteq> None)"


fun sets_result :: "call \<Rightarrow> bool" where
  "sets_result (SetError_call e code) = True"
| "sets_result (SetOutput_call v) = True"
| "sets_result c = False"

text \<open>
  The framework checks a request against the declared arguments before it calls the
  handler: every required string argument is there.
\<close>

definition required_strings :: "Command \<Rightarrow> nat" where
  "required_strings cmd =
    length (filter (\<lambda>a. arg_Type a = ArgString \<and> Required a) (cmd_Arguments cmd))"

definition has_required_args :: "Command \<Rightarrow> Request \<Rightarrow> bool" where
  "has_required_args cmd req =
    (required_strings cmd \<le> length (Arguments req) \<and>
     required_strings cmd \<le> length (StringArguments req))"

text \<open>
  What can be said of the outcome of a handler. It \<open>reports\<close> an error when it returns
  with that error set as a normal error, set by its last call, and with no output.
\<close>

definition reports :: "error \<Rightarrow> outcome \<Rightarrow> bool" where
  "reports e out =
    (\<exists>res. out = Returned res \<and> Error res = Some (e, ErrNormal) \<and> Output res = Nil \<and>
       last (calls res) = SetError_call e ErrNormal)"

text \<open>
  It \<open>answers\<close> with what a method of the engine returned when it returns with the
  error of the method set as a normal error, or with the identity of the path that the
  method returned as its output.
\<close>

definition answers :: "error + Path \<Rightarrow> outcome \<Rightarrow> bool" where
  "answers r out =
    (\<exists>res. out = Returned res \<and>
       (case r of
          Inl e \<Rightarrow> Error res = Some (e, ErrNormal) \<and> Output res = Nil
        | Inr p \<Rightarrow> Error res = None \<and> Output res = PtrObject (Some \<lparr>Hash = Cid p\<rparr>)))"

text \<open>
  A call is quiet when it succeeded and is neither \<open>SetError\<close>, \<open>SetOutput\<close> nor a call
  of the engine. A handler \<open>stops_at\<close> a call with an error when it returns, that call is
  followed by \<open>SetError\<close> of the error as a normal error and by nothing else, and every
  call before it is quiet. It \<open>completes_with\<close> a call and an output when it returns,
  that call is followed by \<open>SetOutput\<close> of the output and by nothing else, and every
  call before it is quiet.
\<close>

definition quiet :: "call \<Rightarrow> bool" where
  "quiet d = (failed d = None \<and> \<not> sets_result d \<and> \<not> is_engine d)"

definition stops_at :: "call \<Rightarrow> error \<Rightarrow> outcome \<Rightarrow> bool" where
  "stops_at c e out =
    (\<exists>res pre. out = Returned res \<and> calls res = pre @ [c, SetError_call e ErrNormal] \<and>
       list_all quiet pre)"

definition completes_with :: "call \<Rightarrow> iface \<Rightarrow> outcome \<Rightarrow> bool" where
  "completes_with c v out =
    (\<exists>res pre. out = Returned res \<and> calls res = pre @ [c, SetOutput_call v] \<and>
       list_all quiet pre)"

text \<open>A request and collaborators to run the handlers on.\<close>

definition example_api :: iface_CoreAPI where
  "example_api =
    \<lparr>ParsePath = (\<lambda>a opts. if a = [] then Inl ''empty path'' else Inr \<lparr>Cid = a\<rparr>),
     Object =
      \<lparr>AppendData = (\<lambda>root d. Inr \<lparr>Cid = Cid root @ ''+'' @ d\<rparr>),
       SetData = (\<lambda>root d. Inr \<lparr>Cid = ''='' @ d\<rparr>),
       AddLink = (\<lambda>root n child opts.
         if opts = [WithCreate True] then Inr \<lparr>Cid = Cid root @ ''/'' @ n\<rparr>
         else Inr \<lparr>Cid = Cid root @ ''.'' @ n\<rparr>),
       RmLink = (\<lambda>root l. Inl ''merkledag: not found'')\<rparr>\<rparr>"

definition example_req :: Request where
  "example_req =
    \<lparr>GetApi = Inr example_api,
     Arguments = [''QmRoot'', ''foo'', ''QmChild''],
     StringArguments = [''QmRoot'', ''foo'', ''QmChild''],
     NextFile = Inr ''hello'',
     Option_Bool = (\<lambda>n. (False, False, None))\<rparr>"

definition example_TypeErr :: "iface \<Rightarrow> iface \<Rightarrow> error" where
  "example_TypeErr expected actual = ''unexpected type''"

text \<open>The same request with a third argument that does not resolve.\<close>

definition unresolved_req :: Request where
  "unresolved_req = example_req\<lparr>Arguments := [''QmRoot'', ''foo'', '''']\<rparr>"

section \<open>The facade (core/coreapi/coreapi.go)\<close>

text \<open>
  The facade and the sub-APIs are structs behind pointers, so they live in a store: a
  list of structs, the address of a struct being its position. \<open>&T{...}\<close> allocates the
  next position. The node (\<open>*core.IpfsNode\<close>) and the option structs are opaque: \<open>'n\<close>
  and \<open>'o\<close>; a nil options pointer is \<open>None\<close>. The structs of the sub-APIs are declared
  outside coreapi.go; their two fields are those of the literals \<open>&BlockAPI{api, nil}\<close>.
\<close>

type_synonym addr = nat

datatype ('n, 'o) struct =
    struct_CoreAPI 'n "'o option"
  | struct_BlockAPI addr "'o option"
  | struct_DagAPI addr "'o option"
  | struct_NameAPI addr "'o option"
  | struct_KeyAPI addr "'o option"
  | struct_ObjectAPI addr "'o option"
  | struct_PinAPI addr "'o option"

type_synonym ('n, 'o) heap = "('n, 'o) struct list"

text \<open>An interface value: the dynamic type and the pointer.\<close>

datatype ref =
    ptr_CoreAPI addr
  | ptr_UnixfsAPI addr
  | ptr_BlockAPI addr
  | ptr_DagAPI addr
  | ptr_NameAPI addr
  | ptr_KeyAPI addr
  | ptr_ObjectAPI addr
  | ptr_PinAPI addr

fun ref_addr :: "ref \<Rightarrow> addr" where
  "ref_addr (ptr_CoreAPI a) = a"
| "ref_addr (ptr_UnixfsAPI a) = a"
| "ref_addr (ptr_BlockAPI a) = a"
| "ref_addr (ptr_DagAPI a) = a"
| "ref_addr (ptr_NameAPI a) = a"
| "ref_addr (ptr_KeyAPI a) = a"
| "ref_addr (ptr_ObjectAPI a) = a"
| "ref_addr (ptr_PinAPI a) = a"

definition new :: "('n, 'o) struct \<Rightarrow> ('n, 'o) heap \<Rightarrow> addr \<times> ('n, 'o) heap" where
  "new v h = (length h, h @ [v])"

definition NewCoreAPI :: "'n \<Rightarrow> ('n, 'o) heap \<Rightarrow> ref \<times> ('n, 'o) heap" where
  "NewCoreAPI n h = (case new (struct_CoreAPI n None) h of (api, h') \<Rightarrow> (ptr_CoreAPI api, h'))"

text \<open>\<open>(*UnixfsAPI)(api)\<close> converts the pointer: the same address under another type.\<close>

definition CoreAPI_Unixfs :: "addr \<Rightarrow> ('n, 'o) heap \<Rightarrow> ref \<times> ('n, 'o) heap" where
  "CoreAPI_Unixfs api h = (ptr_UnixfsAPI api, h)"

definition CoreAPI_Block :: "addr \<Rightarrow> ('n, 'o) heap \<Rightarrow> ref \<times> ('n, 'o) heap" where
  "CoreAPI_Block api h = (case new (struct_BlockAPI api None) h of (a, h') \<Rightarrow> (ptr_BlockAPI a, h'))"

definition CoreAPI_Dag :: "addr \<Rightarrow> ('n, 'o) heap \<Rightarrow> ref \<times> ('n, 'o) heap" where
  "CoreAPI_Dag api h = (case new (struct_DagAPI api None) h of (a, h') \<Rightarrow> (ptr_DagAPI a, h'))"

definition CoreAPI_Name :: "addr \<Rightarrow> ('n, 'o) heap \<Rightarrow> ref \<times> ('n, 'o) heap" where
  "CoreAPI_Name api h = (case new (struct_NameAPI api None) h of (a, h') \<Rightarrow> (ptr_NameAPI a, h'))"

definition CoreAPI_Key :: "addr \<Rightarrow> ('n, 'o) heap \<Rightarrow> ref \<times> ('n, 'o) heap" where
  "CoreAPI_Key api h = (case new (struct_KeyAPI api None) h of (a, h') \<Rightarrow> (ptr_KeyAPI a, h'))"

definition CoreAPI_Object :: "addr \<Rightarrow> ('n, 'o) heap \<Rightarrow> ref \<times> ('n, 'o) heap" where
  "CoreAPI_Object api h =
    (case new (struct_ObjectAPI api None) h of (a, h') \<Rightarrow> (ptr_ObjectAPI a, h'))"

definition CoreAPI_Pin :: "addr \<Rightarrow> ('n, 'o) heap \<Rightarrow> ref \<times> ('n, 'o) heap" where
  "CoreAPI_Pin api h = (case new (struct_PinAPI api None) h of (a, h') \<Rightarrow> (ptr_PinAPI a, h'))"

text \<open>
  The node a sub-API works on: the field \<open>node\<close> of the facade struct, which a
  \<open>*UnixfsAPI\<close> points to itself and the other sub-APIs reach through their first field.
\<close>

definition facade_node :: "('n, 'o) heap \<Rightarrow> addr \<Rightarrow> 'n option" where
  "facade_node h a = (case index h a of Some (struct_CoreAPI n opts) \<Rightarrow> Some n | _ \<Rightarrow> None)"

definition node_of :: "('n, 'o) heap \<Rightarrow> ref \<Rightarrow> 'n option" where
  "node_of h r =
    (case r of
       ptr_CoreAPI a \<Rightarrow> facade_node h a
     | ptr_UnixfsAPI a \<Rightarrow> facade_node h a
     | ptr_BlockAPI a \<Rightarrow>
        (case index h a of Some (struct_BlockAPI api opts) \<Rightarrow> facade_node h api | _ \<Rightarrow> None)
     | ptr_DagAPI a \<Rightarrow>
        (case index h a of Some (struct_DagAPI api opts) \<Rightarrow> facade_node h api | _ \<Rightarrow> None)
     | ptr_NameAPI a \<Rightarrow>
        (case index h a of Some (struct_NameAPI api opts) \<Rightarrow> facade_node h api | _ \<Rightarrow> None)
     | ptr_KeyAPI a \<Rightarrow>
        (case index h a of Some (struct_KeyAPI api opts) \<Rightarrow> facade_node h api | _ \<Rightarrow> None)
     | ptr_ObjectAPI a \<Rightarrow>
        (case index h a of Some (struct_ObjectAPI api opts) \<Rightarrow> facade_node h api | _ \<Rightarrow> None)
     | ptr_PinAPI a \<Rightarrow>
        (case index h a of Some (struct_PinAPI api opts) \<Rightarrow> facade_node h api | _ \<Rightarrow> None))"

text \<open>A reference is fresh for a store when its address is not one of the store.\<close>

definition fresh :: "('n, 'o) heap \<Rightarrow> ref \<Rightarrow> bool" where
  "fresh h r = (length h \<le> ref_addr r)"

text \<open>A store holding one facade, bound to node 7, at address 0.\<close>

definition example_heap :: "(nat, unit) heap" where
  "example_heap = snd (NewCoreAPI 7 [])"

section \<open>The patch engine\<close>

text \<open>
  The implementation of the Object sub-API (the methods \<open>AppendData\<close>, \<open>SetData\<close>,
  \<open>AddLink\<close> and \<open>RmLink\<close> that patch.go calls) is not among the sources. The
  definitions of this section follow the spec, sections 3, 4.1 and 7.
\<close>

text \<open>Modelled from the spec: the Identity of section 3, by its canonical string encoding.\<close>

type_synonym Identity = string

text \<open>Modelled from the spec: the Link of section 3, \<open>{name, target, size: uint64}\<close>.\<close>

record Link =
  link_name :: string
  link_target :: Identity
  link_size :: "64 word"

text \<open>
  Modelled from the spec: the Object of section 3, a data blob (a \<open>char\<close> is a byte) and
  an ordered sequence of links.
\<close>

record DagObject =
  obj_data :: string
  obj_links :: "Link list"

text \<open>Modelled from the spec: the error taxonomy of section 7.\<close>

datatype PatchError = InvalidReference | NotFound | StorageError | IOError | InvalidArgument

text \<open>Modelled from the spec: the empty Object of section 4.1 (empty data, empty link table).\<close>

definition emptyObject :: DagObject where
  "emptyObject = \<lparr>obj_data = [], obj_links = []\<rparr>"

text \<open>
  Modelled from the spec: the lookup of a link by name in a link table (section 4.3,
  ``following Link Table lookups'').
\<close>

definition lookupLink :: "string \<Rightarrow> Link list \<Rightarrow> Link option" where
  "lookupLink n ls = find (\<lambda>l. link_name l = n) ls"

text \<open>
  Modelled from the spec: ``insert/replace a single Link entry with that name'' (section
  4.1); ``inserting a link with an existing name replaces it'' (section 3). A new name
  goes to the end of the table.
\<close>

definition insertLink :: "Link \<Rightarrow> Link list \<Rightarrow> Link list" where
  "insertLink l ls =
    (if link_name l \<in> set (map link_name ls)
     then map (\<lambda>k. if link_name k = link_name l then l else k) ls
     else ls @ [l])"

text \<open>Modelled from the spec: a name cut at every path separator.\<close>

fun split_on :: "char \<Rightarrow> string \<Rightarrow> string list" where
  "split_on c [] = [[]]"
| "split_on c (x # xs) =
    (if x = c then [] # split_on c xs
     else (case split_on c xs of [] \<Rightarrow> [[x]] | w # ws \<Rightarrow> (x # w) # ws))"

text \<open>
  Modelled from the spec: \<open>AddLink\<close> of section 4.1 along the segments of a name. The
  last segment installs the link. An intermediate segment is followed through the link of
  that name; where there is none, it is synthesized as an empty Object when
  \<open>allowIntermediate\<close> holds and the operation fails with \<open>InvalidArgument\<close> otherwise.
  The changed child is wrapped again in its parent, bottom-up. The spec leaves to its
  collaborators how an identity is fetched (\<open>get\<close>), how the identity of an Object is
  computed (\<open>ident\<close>) and what size a link to it records (\<open>csize\<close>); a link whose target
  cannot be fetched fails with \<open>InvalidArgument\<close> without \<open>allowIntermediate\<close> and with
  \<open>StorageError\<close> with it.
\<close>

fun addLinkAt ::
  "(Identity \<Rightarrow> DagObject option) \<Rightarrow> (DagObject \<Rightarrow> Identity) \<Rightarrow> (DagObject \<Rightarrow> 64 word) \<Rightarrow>
   bool \<Rightarrow> Identity \<Rightarrow> 64 word \<Rightarrow> DagObject \<Rightarrow> string \<Rightarrow> string list \<Rightarrow> PatchError + DagObject" where
  "addLinkAt get ident csize allowIntermediate tgt targetSize obj seg [] =
    Inr (obj\<lparr>obj_links :=
      insertLink \<lparr>link_name = seg, link_target = tgt, link_size = targetSize\<rparr> (obj_links obj)\<rparr>)"
| "addLinkAt get ident csize allowIntermediate tgt targetSize obj seg (s # ss) =
    (case (case lookupLink seg (obj_links obj) of
             None \<Rightarrow> if allowIntermediate then Inr emptyObject else Inl InvalidArgument
           | Some l \<Rightarrow>
              (case get (link_target l) of
                 None \<Rightarrow> Inl (if allowIntermediate then StorageError else InvalidArgument)
               | Some child \<Rightarrow> Inr child)) of
       Inl e \<Rightarrow> Inl e
     | Inr child \<Rightarrow>
        (case addLinkAt get ident csize allowIntermediate tgt targetSize child s ss of
           Inl e \<Rightarrow> Inl e
         | Inr child' \<Rightarrow>
            Inr (obj\<lparr>obj_links :=
              insertLink \<lparr>link_name = seg, link_target = ident child', link_size = csize child'\<rparr>
                (obj_links obj)\<rparr>)))"

text \<open>Modelled from the spec: \<open>AddLink(obj, name, target, targetSize, allowIntermediate)\<close> of section 4.1.\<close>

definition patch_AddLink ::
  "(Identity \<Rightarrow> DagObject option) \<Rightarrow> (DagObject \<Rightarrow> Identity) \<Rightarrow> (DagObject \<Rightarrow> 64 word) \<Rightarrow>
   DagObject \<Rightarrow> string \<Rightarrow> Identity \<Rightarrow> 64 word \<Rightarrow> bool \<Rightarrow> PatchError + DagObject" where
  "patch_AddLink get ident csize obj n tgt targetSize allowIntermediate =
    (case split_on CHR ''/'' n of
       [] \<Rightarrow> Inl InvalidArgument
     | seg # rest \<Rightarrow> addLinkAt get ident csize allowIntermediate tgt targetSize obj seg rest)"

text \<open>
  Modelled from the spec: \<open>RmLink(obj, name)\<close> of section 4.1: \<open>NotFound\<close> if no link
  has exactly that name (no path traversal), otherwise the table without that entry.
\<close>

definition patch_RmLink :: "DagObject \<Rightarrow> string \<Rightarrow> PatchError + DagObject" where
  "patch_RmLink obj n =
    (if n \<in> set (map link_name (obj_links obj))
     then Inr (obj\<lparr>obj_links := filter (\<lambda>l. link_name l \<noteq> n) (obj_links obj)\<rparr>)
     else Inl NotFound)"

text \<open>Modelled from the spec: \<open>SetData(obj, newData)\<close> of section 4.1.\<close>

definition patch_SetData :: "DagObject \<Rightarrow> string \<Rightarrow> DagObject" where
  "patch_SetData obj newData = obj\<lparr>obj_data := newData\<rparr>"

text \<open>Modelled from the spec: \<open>AppendData(obj, moreData)\<close> of section 4.1.\<close>

definition patch_AppendData :: "DagObject \<Rightarrow> string \<Rightarrow> DagObject" where
  "patch_AppendData obj moreData = obj\<lparr>obj_data := obj_data obj @ moreData\<rparr>"

text \<open>
  Collaborators to evaluate the operations with: a store that holds nothing, the
  identity of an Object as a rendering of its content, and the size of a link as the
  length of the data.
\<close>

definition no_store :: "Identity \<Rightarrow> DagObject option" where
  "no_store i = None"

definition example_ident :: "DagObject \<Rightarrow> Identity" where
  "example_ident obj =
    obj_data obj @ concat (map (\<lambda>l. ''/'' @ link_name l @ '':'' @ link_target l) (obj_links obj))"

definition example_csize :: "DagObject \<Rightarrow> 64 word" where
  "example_csize obj = of_nat (length (obj_data obj))"

text \<open>The Object R2 of the spec's scenario: data ``world'' and no links.\<close>

definition example_object :: DagObject where
  "example_object = \<lparr>obj_data = ''world'', obj_links = []\<rparr>"

section \<open>Properties of the command adapters\<close>

lemmas go_defs = Let_def called_def SetError_def SetOutput_def NewResponse_def

lemmas run_defs = go_defs index_def

lemmas cmd_defs = has_required_args_def required_strings_def StringArg_def FileArg_def
  EnableStdin_def

lemma subcommand_cases:
  "map_of (Subcommands (ObjectPatchCmd u t)) sub = Some cmd \<Longrightarrow>
    (sub = ''append-data'' \<and> cmd = patchAppendDataCmd u t \<and> Run cmd = Some patchAppendDataCmd_Run) \<or>
    (sub = ''add-link'' \<and> cmd = patchAddLinkCmd u t \<and> Run cmd = Some patchAddLinkCmd_Run) \<or>
    (sub = ''rm-link'' \<and> cmd = patchRmLinkCmd u t \<and> Run cmd = Some patchRmLinkCmd_Run) \<or>
    (sub = ''set-data'' \<and> cmd = patchSetDataCmd u t \<and> Run cmd = Some patchSetDataCmd_Run)"
  by (auto simp: ObjectPatchCmd_def patchAppendDataCmd_def patchAddLinkCmd_def
      patchRmLinkCmd_def patchSetDataCmd_def split: if_splits)


lemma patchAppendDataCmd_returns:
  "has_required_args (patchAppendDataCmd u t) req \<Longrightarrow>
   \<exists>res. patchAppendDataCmd_Run req NewResponse = Returned res"
  by (auto simp: patchAppendDataCmd_Run_def run_defs cmd_defs patchAppendDataCmd_def
      split: sum.splits option.splits prod.splits if_splits)

lemma patchAppendDataCmd_once:
  "patchAppendDataCmd_Run req NewResponse = Returned res \<Longrightarrow>
   length (filter sets_result (calls res)) = 1 \<and> sets_result (last (calls res))"
  by (auto simp: patchAppendDataCmd_Run_def run_defs
      split: sum.splits option.splits prod.splits if_splits)


lemma patchSetDataCmd_returns:
  "has_required_args (patchSetDataCmd u t) req \<Longrightarrow>
   \<exists>res. patchSetDataCmd_Run req NewResponse = Returned res"
  by (auto simp: patchSetDataCmd_Run_def run_defs cmd_defs patchSetDataCmd_def
      split: sum.splits option.splits prod.splits if_splits)

lemma patchSetDataCmd_once:
  "patchSetDataCmd_Run req NewResponse = Returned res \<Longrightarrow>
   length (filter sets_result (calls res)) = 1 \<and> sets_result (last (calls res))"
  by (auto simp: patchSetDataCmd_Run_def run_defs
      split: sum.splits option.splits prod.splits if_splits)


lemma patchRmLinkCmd_returns:
  "has_required_args (patchRmLinkCmd u t) req \<Longrightarrow>
   \<exists>res. patchRmLinkCmd_Run req NewResponse = Returned res"
  by (auto simp: patchRmLinkCmd_Run_def run_defs cmd_defs patchRmLinkCmd_def
      split: sum.splits option.splits prod.splits if_splits)

lemma patchRmLinkCmd_once:
  "patchRmLinkCmd_Run req NewResponse = Returned res \<Longrightarrow>
   length (filter sets_result (calls res)) = 1 \<and> sets_result (last (calls res))"
  by (auto simp: patchRmLinkCmd_Run_def run_defs
      split: sum.splits option.splits prod.splits if_splits)


lemma patchAddLinkCmd_returns:
  "has_required_args (patchAddLinkCmd u t) req \<Longrightarrow>
   \<exists>res. patchAddLinkCmd_Run req NewResponse = Returned res"
  by (auto simp: patchAddLinkCmd_Run_def run_defs cmd_defs patchAddLinkCmd_def
      split: sum.splits option.splits prod.splits if_splits)

lemma patchAddLinkCmd_once:
  "patchAddLinkCmd_Run req NewResponse = Returned res \<Longrightarrow>
   length (filter sets_result (calls res)) = 1 \<and> sets_result (last (calls res))"
  by (auto simp: patchAddLinkCmd_Run_def run_defs
      split: sum.splits option.splits prod.splits if_splits)


lemma any_returns:
  "map_of (Subcommands (ObjectPatchCmd u t)) sub = Some cmd \<Longrightarrow> Run cmd = Some run \<Longrightarrow>
   has_required_args cmd req \<Longrightarrow> \<exists>res. run req NewResponse = Returned res"
  using subcommand_cases [of u t sub cmd]
  by (auto dest: patchAppendDataCmd_returns patchSetDataCmd_returns
      patchRmLinkCmd_returns patchAddLinkCmd_returns)

lemma any_once:
  "map_of (Subcommands (ObjectPatchCmd u t)) sub = Some cmd \<Longrightarrow> Run cmd = Some run \<Longrightarrow>
   run req NewResponse = Returned res \<Longrightarrow>
   length (filter sets_result (calls res)) = 1 \<and> sets_result (last (calls res))"
  using subcommand_cases [of u t sub cmd]
  by (auto dest: patchAppendDataCmd_once patchSetDataCmd_once
      patchRmLinkCmd_once patchAddLinkCmd_once)

lemma subcommand_names:
  "map fst (Subcommands (ObjectPatchCmd u t)) =
     [''append-data'', ''add-link'', ''rm-link'', ''set-data'']"
  by (simp add: ObjectPatchCmd_def)

lemma subcommand_handlers:
  "map (\<lambda>(n, c). (n, Run c)) (Subcommands (ObjectPatchCmd u t)) =
     [(''append-data'', Some patchAppendDataCmd_Run), (''add-link'', Some patchAddLinkCmd_Run),
      (''rm-link'', Some patchRmLinkCmd_Run), (''set-data'', Some patchSetDataCmd_Run)]"
  by (simp add: ObjectPatchCmd_def patchAppendDataCmd_def patchAddLinkCmd_def
      patchRmLinkCmd_def patchSetDataCmd_def)

lemma all_return:
  "(\<forall>sub cmd run. map_of (Subcommands (ObjectPatchCmd u t)) sub = Some cmd \<and>
      Run cmd = Some run \<and> has_required_args cmd req \<longrightarrow>
      (\<exists>res. run req NewResponse = Returned res))"
  using any_returns by blast

lemma all_once:
  "(\<forall>sub cmd run res. map_of (Subcommands (ObjectPatchCmd u t)) sub = Some cmd \<and>
      Run cmd = Some run \<and> run req NewResponse = Returned res \<longrightarrow>
      length (filter sets_result (calls res)) = 1 \<and> sets_result (last (calls res)))"
  using any_once by blast



text \<open>The handlers, step by step: the error of the first call that fails is reported.\<close>

lemma patchAppendDataCmd_reports_GetApi:
  "(GetApi req = Inl e \<longrightarrow>
    reports e (patchAppendDataCmd_Run req NewResponse))"
  by (auto simp: patchAppendDataCmd_Run_def go_defs reports_def)

lemma patchAppendDataCmd_reports_root:
  "(GetApi req = Inr api \<and>
    index (StringArguments req) 0 = Some arg0 \<and>
    ParsePath api arg0 [WithResolve True] = Inl e \<longrightarrow>
    reports e (patchAppendDataCmd_Run req NewResponse))"
  by (auto simp: patchAppendDataCmd_Run_def go_defs reports_def)

lemma patchAppendDataCmd_reports_NextFile:
  "(GetApi req = Inr api \<and>
    index (StringArguments req) 0 = Some arg0 \<and>
    ParsePath api arg0 [WithResolve True] = Inr root \<and>
    NextFile req = Inl e \<longrightarrow>
    reports e (patchAppendDataCmd_Run req NewResponse))"
  by (auto simp: patchAppendDataCmd_Run_def go_defs reports_def)

lemma patchAppendDataCmd_reports_engine:
  "(GetApi req = Inr api \<and>
    index (StringArguments req) 0 = Some arg0 \<and>
    ParsePath api arg0 [WithResolve True] = Inr root \<and>
    NextFile req = Inr data \<and>
    AppendData (Object api) root data = Inl e \<longrightarrow>
    reports e (patchAppendDataCmd_Run req NewResponse))"
  by (auto simp: patchAppendDataCmd_Run_def go_defs reports_def)

lemma patchSetDataCmd_reports_GetApi:
  "(GetApi req = Inl e \<longrightarrow>
    reports e (patchSetDataCmd_Run req NewResponse))"
  by (auto simp: patchSetDataCmd_Run_def go_defs reports_def)

lemma patchSetDataCmd_reports_root:
  "(GetApi req = Inr api \<and>
    index (StringArguments req) 0 = Some arg0 \<and>
    ParsePath api arg0 [WithResolve True] = Inl e \<longrightarrow>
    reports e (patchSetDataCmd_Run req NewResponse))"
  by (auto simp: patchSetDataCmd_Run_def go_defs reports_def)

lemma patchSetDataCmd_reports_NextFile:
  "(GetApi req = Inr api \<and>
    index (StringArguments req) 0 = Some arg0 \<and>
    ParsePath api arg0 [WithResolve True] = Inr root \<and>
    NextFile req = Inl e \<longrightarrow>
    reports e (patchSetDataCmd_Run req NewResponse))"
  by (auto simp: patchSetDataCmd_Run_def go_defs reports_def)

lemma patchSetDataCmd_reports_engine:
  "(GetApi req = Inr api \<and>
    index (StringArguments req) 0 = Some arg0 \<and>
    ParsePath api arg0 [WithResolve True] = Inr root \<and>
    NextFile req = Inr data \<and>
    SetData (Object api) root data = Inl e \<longrightarrow>
    reports e (patchSetDataCmd_Run req NewResponse))"
  by (auto simp: patchSetDataCmd_Run_def go_defs reports_def)

lemma patchRmLinkCmd_reports_GetApi:
  "(GetApi req = Inl e \<longrightarrow>
    reports e (patchRmLinkCmd_Run req NewResponse))"
  by (auto simp: patchRmLinkCmd_Run_def go_defs reports_def)

lemma patchRmLinkCmd_reports_root:
  "(GetApi req = Inr api \<and>
    index (Arguments req) 0 = Some arg0 \<and>
    ParsePath api arg0 [WithResolve True] = Inl e \<longrightarrow>
    reports e (patchRmLinkCmd_Run req NewResponse))"
  by (auto simp: patchRmLinkCmd_Run_def go_defs reports_def)

lemma patchRmLinkCmd_reports_engine:
  "(GetApi req = Inr api \<and>
    index (Arguments req) 0 = Some arg0 \<and>
    ParsePath api arg0 [WithResolve True] = Inr root \<and>
    index (Arguments req) 1 = Some nm \<and>
    RmLink (Object api) root nm = Inl e \<longrightarrow>
    reports e (patchRmLinkCmd_Run req NewResponse))"
  by (auto simp: patchRmLinkCmd_Run_def go_defs reports_def)

lemma patchAddLinkCmd_reports_GetApi:
  "(GetApi req = Inl e \<longrightarrow>
    reports e (patchAddLinkCmd_Run req NewResponse))"
  by (auto simp: patchAddLinkCmd_Run_def go_defs reports_def)

lemma patchAddLinkCmd_reports_root:
  "(GetApi req = Inr api \<and>
    index (Arguments req) 0 = Some arg0 \<and>
    ParsePath api arg0 [WithResolve True] = Inl e \<longrightarrow>
    reports e (patchAddLinkCmd_Run req NewResponse))"
  by (auto simp: patchAddLinkCmd_Run_def go_defs reports_def)

lemma patchAddLinkCmd_reports_ref:
  "(GetApi req = Inr api \<and>
    index (Arguments req) 0 = Some arg0 \<and>
    ParsePath api arg0 [WithResolve True] = Inr root \<and>
    index (Arguments req) 1 = Some nm \<and>
    index (Arguments req) 2 = Some arg2 \<and>
    ParsePath api arg2 [WithResolve True] = Inl e \<longrightarrow>
    reports e (patchAddLinkCmd_Run req NewResponse))"
  by (auto simp: patchAddLinkCmd_Run_def go_defs reports_def)

lemma patchAddLinkCmd_reports_Option:
  "(GetApi req = Inr api \<and>
    index (Arguments req) 0 = Some arg0 \<and>
    ParsePath api arg0 [WithResolve True] = Inr root \<and>
    index (Arguments req) 1 = Some nm \<and>
    index (Arguments req) 2 = Some arg2 \<and>
    ParsePath api arg2 [WithResolve True] = Inr child \<and>
    Option_Bool req ''create'' = (create, found, Some e) \<longrightarrow>
    reports e (patchAddLinkCmd_Run req NewResponse))"
  by (auto simp: patchAddLinkCmd_Run_def go_defs reports_def)

lemma patchAddLinkCmd_reports_engine:
  "(GetApi req = Inr api \<and>
    index (Arguments req) 0 = Some arg0 \<and>
    ParsePath api arg0 [WithResolve True] = Inr root \<and>
    index (Arguments req) 1 = Some nm \<and>
    index (Arguments req) 2 = Some arg2 \<and>
    ParsePath api arg2 [WithResolve True] = Inr child \<and>
    Option_Bool req ''create'' = (create, found, None) \<and>
    AddLink (Object api) root nm child [WithCreate create] = Inl e \<longrightarrow>
    reports e (patchAddLinkCmd_Run req NewResponse))"
  by (auto simp: patchAddLinkCmd_Run_def go_defs reports_def)

text \<open>
  C2. The four subcommands have the four handlers. On every request, whichever call on
  a collaborator is the first to return an error (the API construction, the resolution
  of the root or of the ref, the read of the data source, the parsing of the option, or
  the engine call itself), the handler returns instead of panicking, with that error set
  as a normal error (\<open>ErrNormal\<close>) by \<open>SetError\<close> as its last call, and with no
  output. A handler whose request carries the required arguments never panics.
\<close>

theorem patch_failure_is_normal_error:
  "map (\<lambda>(n, c). (n, Run c)) (Subcommands (ObjectPatchCmd u t)) =
     [(''append-data'', Some patchAppendDataCmd_Run), (''add-link'', Some patchAddLinkCmd_Run),
      (''rm-link'', Some patchRmLinkCmd_Run), (''set-data'', Some patchSetDataCmd_Run)] \<and>
   (GetApi req = Inl e \<longrightarrow>
       reports e (patchAppendDataCmd_Run req NewResponse)) \<and>
   (GetApi req = Inr api \<and>
       index (StringArguments req) 0 = Some arg0 \<and>
       ParsePath api arg0 [WithResolve True] = Inl e \<longrightarrow>
       reports e (patchAppendDataCmd_Run req NewResponse)) \<and>
   (GetApi req = Inr api \<and>
       index (StringArguments req) 0 = Some arg0 \<and>
       ParsePath api arg0 [WithResolve True] = Inr root \<and>
       NextFile req = Inl e \<longrightarrow>
       reports e (patchAppendDataCmd_Run req NewResponse)) \<and>
   (GetApi req = Inr api \<and>
       index (StringArguments req) 0 = Some arg0 \<and>
       ParsePath api arg0 [WithResolve True] = Inr root \<and>
       NextFile req = Inr data \<and>
       AppendData (Object api) root data = Inl e \<longrightarrow>
       reports e (patchAppendDataCmd_Run req NewResponse)) \<and>
   (GetApi req = Inl e \<longrightarrow>
       reports e (patchSetDataCmd_Run req NewResponse)) \<and>
   (GetApi req = Inr api \<and>
       index (StringArguments req) 0 = Some arg0 \<and>
       ParsePath api arg0 [WithResolve True] = Inl e \<longrightarrow>
       reports e (patchSetDataCmd_Run req NewResponse)) \<and>
   (GetApi req = Inr api \<and>
       index (StringArguments req) 0 = Some arg0 \<and>
       ParsePath api arg0 [WithResolve True] = Inr root \<and>
       NextFile req = Inl e \<longrightarrow>
       reports e (patchSetDataCmd_Run req NewResponse)) \<and>
   (GetApi req = Inr api \<and>
       index (StringArguments req) 0 = Some arg0 \<and>
       ParsePath api arg0 [WithResolve True] = Inr root \<and>
       NextFile req = Inr data \<and>
       SetData (Object api) root data = Inl e \<longrightarrow>
       reports e (patchSetDataCmd_Run req NewResponse)) \<and>
   (GetApi req = Inl e \<longrightarrow>
       reports e (patchRmLinkCmd_Run req NewResponse)) \<and>
   (GetApi req = Inr api \<and>
       index (Arguments req) 0 = Some arg0 \<and>
       ParsePath api arg0 [WithResolve True] = Inl e \<longrightarrow>
       reports e (patchRmLinkCmd_Run req NewResponse)) \<and>
   (GetApi req = Inr api \<and>
       index (Arguments req) 0 = Some arg0 \<and>
       ParsePath api arg0 [WithResolve True] = Inr root \<and>
       index (Arguments req) 1 = Some nm \<and>
       RmLink (Object api) root nm = Inl e \<longrightarrow>
       reports e (patchRmLinkCmd_Run req NewResponse)) \<and>
   (GetApi req = Inl e \<longrightarrow>
       reports e (patchAddLinkCmd_Run req NewResponse)) \<and>
   (GetApi req = Inr api \<and>
       index (Arguments req) 0 = Some arg0 \<and>
       ParsePath api arg0 [WithResolve True] = Inl e \<longrightarrow>
       reports e (patchAddLinkCmd_Run req NewResponse)) \<and>
   (GetApi req = Inr api \<and>
       index (Arguments req) 0 = Some arg0 \<and>
       ParsePath api arg0 [WithResolve True] = Inr root \<and>
       index (Arguments req) 1 = Some nm \<and>
       index (Arguments req) 2 = Some arg2 \<and>
       ParsePath api arg2 [WithResolve True] = Inl e \<longrightarrow>
       reports e (patchAddLinkCmd_Run req NewResponse)) \<and>
   (GetApi req = Inr api \<and>
       index (Arguments req) 0 = Some arg0 \<and>
       ParsePath api arg0 [WithResolve True] = Inr root \<and>
       index (Arguments req) 1 = Some nm \<and>
       index (Arguments req) 2 = Some arg2 \<and>
       ParsePath api arg2 [WithResolve True] = Inr child \<and>
       Option_Bool req ''create'' = (create, found, Some e) \<longrightarrow>
       reports e (patchAddLinkCmd_Run req NewResponse)) \<and>
   (GetApi req = Inr api \<and>
       index (Arguments req) 0 = Some arg0 \<and>
       ParsePath api arg0 [WithResolve True] = Inr root \<and>
       index (Arguments req) 1 = Some nm \<and>
       index (Arguments req) 2 = Some arg2 \<and>
       ParsePath api arg2 [WithResolve True] = Inr child \<and>
       Option_Bool req ''create'' = (create, found, None) \<and>
       AddLink (Object api) root nm child [WithCreate create] = Inl e \<longrightarrow>
       reports e (patchAddLinkCmd_Run req NewResponse)) \<and>
   (\<forall>sub cmd run. map_of (Subcommands (ObjectPatchCmd u t)) sub = Some cmd \<and>
      Run cmd = Some run \<and> has_required_args cmd req \<longrightarrow>
      (\<exists>res. run req NewResponse = Returned res))"
  by (intro conjI subcommand_handlers patchAppendDataCmd_reports_GetApi
      patchAppendDataCmd_reports_root patchAppendDataCmd_reports_NextFile
      patchAppendDataCmd_reports_engine patchSetDataCmd_reports_GetApi
      patchSetDataCmd_reports_root patchSetDataCmd_reports_NextFile
      patchSetDataCmd_reports_engine patchRmLinkCmd_reports_GetApi
      patchRmLinkCmd_reports_root patchRmLinkCmd_reports_engine
      patchAddLinkCmd_reports_GetApi patchAddLinkCmd_reports_root
      patchAddLinkCmd_reports_ref patchAddLinkCmd_reports_Option
      patchAddLinkCmd_reports_engine all_return)

theorem patch_failure_is_normal_error_witness:
  "GetApi example_req = Inr example_api \<and>
   index (Arguments example_req) 0 = Some ''QmRoot'' \<and>
   ParsePath example_api ''QmRoot'' [WithResolve True] = Inr \<lparr>Cid = ''QmRoot''\<rparr> \<and>
   index (Arguments example_req) 1 = Some ''foo'' \<and>
   RmLink (Object example_api) \<lparr>Cid = ''QmRoot''\<rparr> ''foo'' = Inl ''merkledag: not found'' \<and>
   reports ''merkledag: not found'' (patchRmLinkCmd_Run example_req NewResponse) \<and>
   Error (final (patchRmLinkCmd_Run example_req NewResponse)) =
     Some (''merkledag: not found'', ErrNormal) \<and>
   index (Arguments unresolved_req) 2 = Some '''' \<and>
   ParsePath example_api '''' [WithResolve True] = Inl ''empty path'' \<and>
   reports ''empty path'' (patchAddLinkCmd_Run unresolved_req NewResponse)"
proof -
  have h: "GetApi example_req = Inr example_api \<and>
      index (Arguments example_req) 0 = Some ''QmRoot'' \<and>
      ParsePath example_api ''QmRoot'' [WithResolve True] = Inr \<lparr>Cid = ''QmRoot''\<rparr> \<and>
      index (Arguments example_req) 1 = Some ''foo'' \<and>
      RmLink (Object example_api) \<lparr>Cid = ''QmRoot''\<rparr> ''foo'' = Inl ''merkledag: not found''"
    by (simp add: example_req_def example_api_def index_def)
  have k: "GetApi unresolved_req = Inr example_api \<and>
      index (Arguments unresolved_req) 0 = Some ''QmRoot'' \<and>
      ParsePath example_api ''QmRoot'' [WithResolve True] = Inr \<lparr>Cid = ''QmRoot''\<rparr> \<and>
      index (Arguments unresolved_req) 1 = Some ''foo'' \<and>
      index (Arguments unresolved_req) 2 = Some '''' \<and>
      ParsePath example_api '''' [WithResolve True] = Inl ''empty path''"
    by (simp add: unresolved_req_def example_req_def example_api_def index_def)
  have r: "reports ''merkledag: not found'' (patchRmLinkCmd_Run example_req NewResponse)"
    using h patch_failure_is_normal_error
      [where req = example_req and u = Inr and t = example_TypeErr
        and e = "''merkledag: not found''" and api = example_api
        and ?arg0.0 = "''QmRoot''" and root = "\<lparr>Cid = ''QmRoot''\<rparr>"
        and data = "''hello''" and nm = "''foo''" and ?arg2.0 = "''QmChild''"
        and child = "\<lparr>Cid = ''QmChild''\<rparr>" and create = False
        and found = False]
    by (elim conjE) (erule mp, intro conjI)
  have s: "reports ''empty path'' (patchAddLinkCmd_Run unresolved_req NewResponse)"
    using k patch_failure_is_normal_error
      [where req = unresolved_req and u = Inr and t = example_TypeErr
        and e = "''empty path''" and api = example_api and ?arg0.0 = "''QmRoot''"
        and root = "\<lparr>Cid = ''QmRoot''\<rparr>" and data = "''hello''"
        and nm = "''foo''" and ?arg2.0 = "''''"
        and child = "\<lparr>Cid = ''QmChild''\<rparr>" and create = False
        and found = False]
    by (elim conjE) (erule mp, intro conjI)
  from r have "Error (final (patchRmLinkCmd_Run example_req NewResponse)) =
      Some (''merkledag: not found'', ErrNormal)"
    by (auto simp: reports_def)
  with h k r s show ?thesis by simp
qed

text \<open>The handlers and the method of the engine each applies.\<close>

lemma patchAppendDataCmd_applies:
  "(GetApi req = Inr api \<and>
    index (StringArguments req) 0 = Some arg0 \<and>
    ParsePath api arg0 [WithResolve True] = Inr root \<and>
    NextFile req = Inr data \<longrightarrow>
    filter is_engine (calls (final (patchAppendDataCmd_Run req NewResponse))) =
      [AppendData_call root data (AppendData (Object api) root data)] \<and>
    answers (AppendData (Object api) root data) (patchAppendDataCmd_Run req NewResponse))"
  by (auto simp: patchAppendDataCmd_Run_def go_defs answers_def is_engine_def split: sum.splits)

lemma patchAppendDataCmd_applies_only:
  "(\<forall>c\<in>set (calls (final (patchAppendDataCmd_Run req NewResponse))). is_engine c \<longrightarrow>
      (\<exists>api root data. GetApi req = Inr api \<and>
         c = AppendData_call root data (AppendData (Object api) root data)))"
  by (auto simp: patchAppendDataCmd_Run_def run_defs is_engine_def
      split: sum.splits option.splits prod.splits if_splits)

lemma patchSetDataCmd_applies:
  "(GetApi req = Inr api \<and>
    index (StringArguments req) 0 = Some arg0 \<and>
    ParsePath api arg0 [WithResolve True] = Inr root \<and>
    NextFile req = Inr data \<longrightarrow>
    filter is_engine (calls (final (patchSetDataCmd_Run req NewResponse))) =
      [SetData_call root data (SetData (Object api) root data)] \<and>
    answers (SetData (Object api) root data) (patchSetDataCmd_Run req NewResponse))"
  by (auto simp: patchSetDataCmd_Run_def go_defs answers_def is_engine_def split: sum.splits)

lemma patchSetDataCmd_applies_only:
  "(\<forall>c\<in>set (calls (final (patchSetDataCmd_Run req NewResponse))). is_engine c \<longrightarrow>
      (\<exists>api root data. GetApi req = Inr api \<and>
         c = SetData_call root data (SetData (Object api) root data)))"
  by (auto simp: patchSetDataCmd_Run_def run_defs is_engine_def
      split: sum.splits option.splits prod.splits if_splits)

lemma patchRmLinkCmd_applies:
  "(GetApi req = Inr api \<and>
    index (Arguments req) 0 = Some arg0 \<and>
    ParsePath api arg0 [WithResolve True] = Inr root \<and>
    index (Arguments req) 1 = Some nm \<longrightarrow>
    filter is_engine (calls (final (patchRmLinkCmd_Run req NewResponse))) =
      [RmLink_call root nm (RmLink (Object api) root nm)] \<and>
    answers (RmLink (Object api) root nm) (patchRmLinkCmd_Run req NewResponse))"
  by (auto simp: patchRmLinkCmd_Run_def go_defs answers_def is_engine_def split: sum.splits)

lemma patchRmLinkCmd_applies_only:
  "(\<forall>c\<in>set (calls (final (patchRmLinkCmd_Run req NewResponse))). is_engine c \<longrightarrow>
      (\<exists>api root nm. GetApi req = Inr api \<and>
         c = RmLink_call root nm (RmLink (Object api) root nm)))"
  by (auto simp: patchRmLinkCmd_Run_def run_defs is_engine_def
      split: sum.splits option.splits prod.splits if_splits)

lemma patchAddLinkCmd_applies:
  "(GetApi req = Inr api \<and>
    index (Arguments req) 0 = Some arg0 \<and>
    ParsePath api arg0 [WithResolve True] = Inr root \<and>
    index (Arguments req) 1 = Some nm \<and>
    index (Arguments req) 2 = Some arg2 \<and>
    ParsePath api arg2 [WithResolve True] = Inr child \<and>
    Option_Bool req ''create'' = (create, found, None) \<longrightarrow>
    filter is_engine (calls (final (patchAddLinkCmd_Run req NewResponse))) =
      [AddLink_call root nm child [WithCreate create] (AddLink (Object api) root nm child [WithCreate create])] \<and>
    answers (AddLink (Object api) root nm child [WithCreate create]) (patchAddLinkCmd_Run req NewResponse))"
  by (auto simp: patchAddLinkCmd_Run_def go_defs answers_def is_engine_def split: sum.splits)

lemma patchAddLinkCmd_applies_only:
  "(\<forall>c\<in>set (calls (final (patchAddLinkCmd_Run req NewResponse))). is_engine c \<longrightarrow>
      (\<exists>api root nm child create. GetApi req = Inr api \<and>
         c = AddLink_call root nm child [WithCreate create] (AddLink (Object api) root nm child [WithCreate create])))"
  by (auto simp: patchAddLinkCmd_Run_def run_defs is_engine_def
      split: sum.splits option.splits prod.splits if_splits)

text \<open>
  C3. The command has exactly the four subcommands append-data, add-link, rm-link and
  set-data, with the four handlers. On every request on which the steps before the
  engine succeed, the handler of append-data applies \<open>AppendData\<close> of the Object
  sub-API of the request to the resolved root and the data, as its only call of the
  engine, and answers with what that application returned; the handler of set-data
  applies \<open>SetData\<close> likewise, the handler of rm-link applies \<open>RmLink\<close> to the resolved
  root and the link name, and the handler of add-link applies \<open>AddLink\<close> to the resolved
  root, the name, the resolved ref and the option. On no request does a handler make a
  call of the engine other than that application.
\<close>

theorem patch_subcommands_dispatch:
  "map fst (Subcommands (ObjectPatchCmd u t)) =
     [''append-data'', ''add-link'', ''rm-link'', ''set-data''] \<and>
   map (\<lambda>(n, c). (n, Run c)) (Subcommands (ObjectPatchCmd u t)) =
     [(''append-data'', Some patchAppendDataCmd_Run), (''add-link'', Some patchAddLinkCmd_Run),
      (''rm-link'', Some patchRmLinkCmd_Run), (''set-data'', Some patchSetDataCmd_Run)] \<and>
   (GetApi req = Inr api \<and>
       index (StringArguments req) 0 = Some arg0 \<and>
       ParsePath api arg0 [WithResolve True] = Inr root \<and>
       NextFile req = Inr data \<longrightarrow>
       filter is_engine (calls (final (patchAppendDataCmd_Run req NewResponse))) =
         [AppendData_call root data (AppendData (Object api) root data)] \<and>
       answers (AppendData (Object api) root data) (patchAppendDataCmd_Run req NewResponse)) \<and>
   (\<forall>c\<in>set (calls (final (patchAppendDataCmd_Run req NewResponse))). is_engine c \<longrightarrow>
         (\<exists>api root data. GetApi req = Inr api \<and>
            c = AppendData_call root data (AppendData (Object api) root data))) \<and>
   (GetApi req = Inr api \<and>
       index (StringArguments req) 0 = Some arg0 \<and>
       ParsePath api arg0 [WithResolve True] = Inr root \<and>
       NextFile req = Inr data \<longrightarrow>
       filter is_engine (calls (final (patchSetDataCmd_Run req NewResponse))) =
         [SetData_call root data (SetData (Object api) root data)] \<and>
       answers (SetData (Object api) root data) (patchSetDataCmd_Run req NewResponse)) \<and>
   (\<forall>c\<in>set (calls (final (patchSetDataCmd_Run req NewResponse))). is_engine c \<longrightarrow>
         (\<exists>api root data. GetApi req = Inr api \<and>
            c = SetData_call root data (SetData (Object api) root data))) \<and>
   (GetApi req = Inr api \<and>
       index (Arguments req) 0 = Some arg0 \<and>
       ParsePath api arg0 [WithResolve True] = Inr root \<and>
       index (Arguments req) 1 = Some nm \<longrightarrow>
       filter is_engine (calls (final (patchRmLinkCmd_Run req NewResponse))) =
         [RmLink_call root nm (RmLink (Object api) root nm)] \<and>
       answers (RmLink (Object api) root nm) (patchRmLinkCmd_Run req NewResponse)) \<and>
   (\<forall>c\<in>set (calls (final (patchRmLinkCmd_Run req NewResponse))). is_engine c \<longrightarrow>
         (\<exists>api root nm. GetApi req = Inr api \<and>
            c = RmLink_call root nm (RmLink (Object api) root nm))) \<and>
   (GetApi req = Inr api \<and>
       index (Arguments req) 0 = Some arg0 \<and>
       ParsePath api arg0 [WithResolve True] = Inr root \<and>
       index (Arguments req) 1 = Some nm \<and>
       index (Arguments req) 2 = Some arg2 \<and>
       ParsePath api arg2 [WithResolve True] = Inr child \<and>
       Option_Bool req ''create'' = (create, found, None) \<longrightarrow>
       filter is_engine (calls (final (patchAddLinkCmd_Run req NewResponse))) =
         [AddLink_call root nm child [WithCreate create] (AddLink (Object api) root nm child [WithCreate create])] \<and>
       answers (AddLink (Object api) root nm child [WithCreate create]) (patchAddLinkCmd_Run req NewResponse)) \<and>
   (\<forall>c\<in>set (calls (final (patchAddLinkCmd_Run req NewResponse))). is_engine c \<longrightarrow>
         (\<exists>api root nm child create. GetApi req = Inr api \<and>
            c = AddLink_call root nm child [WithCreate create] (AddLink (Object api) root nm child [WithCreate create])))"
  by (intro conjI subcommand_names subcommand_handlers patchAppendDataCmd_applies
      patchAppendDataCmd_applies_only patchSetDataCmd_applies
      patchSetDataCmd_applies_only patchRmLinkCmd_applies
      patchRmLinkCmd_applies_only patchAddLinkCmd_applies
      patchAddLinkCmd_applies_only)

theorem patch_subcommands_dispatch_witness:
  "GetApi example_req = Inr example_api \<and>
   index (StringArguments example_req) 0 = Some ''QmRoot'' \<and>
   ParsePath example_api ''QmRoot'' [WithResolve True] = Inr \<lparr>Cid = ''QmRoot''\<rparr> \<and>
   NextFile example_req = Inr ''hello'' \<and>
   SetData (Object example_api) \<lparr>Cid = ''QmRoot''\<rparr> ''hello'' = Inr \<lparr>Cid = ''=hello''\<rparr> \<and>
   filter is_engine (calls (final (patchSetDataCmd_Run example_req NewResponse))) =
     [SetData_call \<lparr>Cid = ''QmRoot''\<rparr> ''hello'' (Inr \<lparr>Cid = ''=hello''\<rparr>)] \<and>
   answers (Inr \<lparr>Cid = ''=hello''\<rparr>) (patchSetDataCmd_Run example_req NewResponse) \<and>
   Output (final (patchSetDataCmd_Run example_req NewResponse)) =
     PtrObject (Some \<lparr>Hash = ''=hello''\<rparr>)"
proof -
  have h: "GetApi example_req = Inr example_api \<and>
      index (StringArguments example_req) 0 = Some ''QmRoot'' \<and>
      ParsePath example_api ''QmRoot'' [WithResolve True] = Inr \<lparr>Cid = ''QmRoot''\<rparr> \<and>
      NextFile example_req = Inr ''hello''"
    by (simp add: example_req_def example_api_def index_def)
  have v: "SetData (Object example_api) \<lparr>Cid = ''QmRoot''\<rparr> ''hello'' = Inr \<lparr>Cid = ''=hello''\<rparr>"
    by (simp add: example_api_def)
  have "filter is_engine (calls (final (patchSetDataCmd_Run example_req NewResponse))) =
      [SetData_call \<lparr>Cid = ''QmRoot''\<rparr> ''hello''
         (SetData (Object example_api) \<lparr>Cid = ''QmRoot''\<rparr> ''hello'')] \<and>
    answers (SetData (Object example_api) \<lparr>Cid = ''QmRoot''\<rparr> ''hello'')
      (patchSetDataCmd_Run example_req NewResponse)"
    using h patch_subcommands_dispatch
      [where req = example_req and u = Inr and t = example_TypeErr
        and api = example_api and ?arg0.0 = "''QmRoot''"
        and root = "\<lparr>Cid = ''QmRoot''\<rparr>" and data = "''hello''"
        and nm = "''foo''" and ?arg2.0 = "''QmChild''"
        and child = "\<lparr>Cid = ''QmChild''\<rparr>" and create = False
        and found = False]
    by (elim conjE) (erule mp, intro conjI)
  with v have a: "filter is_engine (calls (final (patchSetDataCmd_Run example_req NewResponse))) =
      [SetData_call \<lparr>Cid = ''QmRoot''\<rparr> ''hello'' (Inr \<lparr>Cid = ''=hello''\<rparr>)]"
    and b: "answers (Inr \<lparr>Cid = ''=hello''\<rparr>) (patchSetDataCmd_Run example_req NewResponse)"
    by simp_all
  from b have "Output (final (patchSetDataCmd_Run example_req NewResponse)) =
      PtrObject (Some \<lparr>Hash = ''=hello''\<rparr>)"
    by (auto simp: answers_def)
  with h v a b show ?thesis by simp
qed

lemma patchAddLinkCmd_create_passed:
  "AddLink_call root nm child opts r \<in> set (calls (final (patchAddLinkCmd_Run req NewResponse))) \<Longrightarrow>
   opts = [WithCreate (fst (Option_Bool req ''create''))]"
  by (auto simp: patchAddLinkCmd_Run_def run_defs
      split: sum.splits option.splits prod.splits if_splits)

lemma patchAddLinkCmd_called:
  "GetApi req = Inr api \<Longrightarrow> index (Arguments req) 0 = Some arg0 \<Longrightarrow>
   ParsePath api arg0 [WithResolve True] = Inr root \<Longrightarrow> index (Arguments req) 1 = Some nm \<Longrightarrow>
   index (Arguments req) 2 = Some arg2 \<Longrightarrow> ParsePath api arg2 [WithResolve True] = Inr child \<Longrightarrow>
   Option_Bool req ''create'' = (create, found, None) \<Longrightarrow>
   filter is_engine (calls (final (patchAddLinkCmd_Run req NewResponse))) =
     [AddLink_call root nm child [WithCreate create]
        (AddLink (Object api) root nm child [WithCreate create])]"
  by (auto simp: patchAddLinkCmd_Run_def Let_def called_def SetError_def SetOutput_def
      NewResponse_def is_engine_def split: sum.splits)

text \<open>
  C4. The add-link subcommand declares one option, a boolean named create with the
  short form p. In every invocation, a call of the engine's \<open>AddLink\<close> carries
  \<open>WithCreate\<close> of exactly the value that parsing the option create gave, as its only
  option; and the call is made with that value whenever the steps before it succeed.
\<close>

theorem add_link_create_option:
  "Options (patchAddLinkCmd u t) =
     [\<lparr>opt_Names = [''create'', ''p''], opt_Kind = Bool,
       opt_Description = ''Create intermediary nodes.''\<rparr>] \<and>
   (\<forall>root nm child opts r.
      AddLink_call root nm child opts r \<in> set (calls (final (patchAddLinkCmd_Run req NewResponse))) \<longrightarrow>
      opts = [WithCreate (fst (Option_Bool req ''create''))]) \<and>
   (\<forall>api arg0 root nm arg2 child create found.
      GetApi req = Inr api \<and> index (Arguments req) 0 = Some arg0 \<and>
      ParsePath api arg0 [WithResolve True] = Inr root \<and> index (Arguments req) 1 = Some nm \<and>
      index (Arguments req) 2 = Some arg2 \<and> ParsePath api arg2 [WithResolve True] = Inr child \<and>
      Option_Bool req ''create'' = (create, found, None) \<longrightarrow>
      filter is_engine (calls (final (patchAddLinkCmd_Run req NewResponse))) =
        [AddLink_call root nm child [WithCreate create]
           (AddLink (Object api) root nm child [WithCreate create])])"
proof (intro conjI allI impI)
  show "Options (patchAddLinkCmd u t) =
     [\<lparr>opt_Names = [''create'', ''p''], opt_Kind = Bool,
       opt_Description = ''Create intermediary nodes.''\<rparr>]"
    by (simp add: patchAddLinkCmd_def BoolOption_def)
next
  fix root nm child opts r
  assume "AddLink_call root nm child opts r
    \<in> set (calls (final (patchAddLinkCmd_Run req NewResponse)))"
  then show "opts = [WithCreate (fst (Option_Bool req ''create''))]"
    by (rule patchAddLinkCmd_create_passed)
next
  fix api arg0 root nm arg2 child create found
  assume "GetApi req = Inr api \<and> index (Arguments req) 0 = Some arg0 \<and>
      ParsePath api arg0 [WithResolve True] = Inr root \<and> index (Arguments req) 1 = Some nm \<and>
      index (Arguments req) 2 = Some arg2 \<and> ParsePath api arg2 [WithResolve True] = Inr child \<and>
      Option_Bool req ''create'' = (create, found, None)"
  then show "filter is_engine (calls (final (patchAddLinkCmd_Run req NewResponse))) =
        [AddLink_call root nm child [WithCreate create]
           (AddLink (Object api) root nm child [WithCreate create])]"
    using patchAddLinkCmd_called by blast
qed

text \<open>The same request as \<open>example_req\<close>, with the option create given.\<close>

theorem add_link_create_option_witness:
  "GetApi (example_req\<lparr>Option_Bool := (\<lambda>n. (True, True, None))\<rparr>) = Inr example_api \<and>
   filter is_engine
     (calls (final (patchAddLinkCmd_Run (example_req\<lparr>Option_Bool := (\<lambda>n. (True, True, None))\<rparr>)
        NewResponse))) =
     [AddLink_call \<lparr>Cid = ''QmRoot''\<rparr> ''foo'' \<lparr>Cid = ''QmChild''\<rparr> [WithCreate True]
        (Inr \<lparr>Cid = ''QmRoot/foo''\<rparr>)]"
proof -
  let ?req = "example_req\<lparr>Option_Bool := (\<lambda>n. (True, True, None))\<rparr>"
  have h: "GetApi ?req = Inr example_api \<and> index (Arguments ?req) 0 = Some ''QmRoot'' \<and>
      ParsePath example_api ''QmRoot'' [WithResolve True] = Inr \<lparr>Cid = ''QmRoot''\<rparr> \<and>
      index (Arguments ?req) 1 = Some ''foo'' \<and>
      index (Arguments ?req) 2 = Some ''QmChild'' \<and>
      ParsePath example_api ''QmChild'' [WithResolve True] = Inr \<lparr>Cid = ''QmChild''\<rparr> \<and>
      Option_Bool ?req ''create'' = (True, True, None)"
    by (simp add: example_req_def example_api_def index_def)
  have "filter is_engine (calls (final (patchAddLinkCmd_Run ?req NewResponse))) =
      [AddLink_call \<lparr>Cid = ''QmRoot''\<rparr> ''foo'' \<lparr>Cid = ''QmChild''\<rparr> [WithCreate True]
         (AddLink (Object example_api) \<lparr>Cid = ''QmRoot''\<rparr> ''foo'' \<lparr>Cid = ''QmChild''\<rparr>
            [WithCreate True])]"
    using add_link_create_option [of Inr example_TypeErr ?req] h by blast
  then show ?thesis
    by (simp add: example_req_def example_api_def)
qed


text \<open>The handlers, step by step: where each stops, and what it has called by then.\<close>

lemma patchAppendDataCmd_stops_GetApi:
  "(GetApi req = Inl e \<longrightarrow>
    stops_at (GetApi_call (Some e)) e (patchAppendDataCmd_Run req NewResponse))"
  by (auto simp: patchAppendDataCmd_Run_def go_defs stops_at_def quiet_def is_engine_def
      Cons_eq_append_conv)

lemma patchAppendDataCmd_stops_root:
  "(GetApi req = Inr api \<and>
    index (StringArguments req) 0 = Some arg0 \<and>
    ParsePath api arg0 [WithResolve True] = Inl e \<longrightarrow>
    stops_at (ParsePath_call arg0 [WithResolve True] (Inl e)) e (patchAppendDataCmd_Run req NewResponse))"
  by (auto simp: patchAppendDataCmd_Run_def go_defs stops_at_def quiet_def is_engine_def
      Cons_eq_append_conv)

lemma patchAppendDataCmd_stops_NextFile:
  "(GetApi req = Inr api \<and>
    index (StringArguments req) 0 = Some arg0 \<and>
    ParsePath api arg0 [WithResolve True] = Inr root \<and>
    NextFile req = Inl e \<longrightarrow>
    stops_at (NextFile_call (Inl e)) e (patchAppendDataCmd_Run req NewResponse))"
  by (auto simp: patchAppendDataCmd_Run_def go_defs stops_at_def quiet_def is_engine_def
      Cons_eq_append_conv)

lemma patchAppendDataCmd_stops_engine:
  "(GetApi req = Inr api \<and>
    index (StringArguments req) 0 = Some arg0 \<and>
    ParsePath api arg0 [WithResolve True] = Inr root \<and>
    NextFile req = Inr data \<and>
    AppendData (Object api) root data = Inl e \<longrightarrow>
    stops_at (AppendData_call root data (Inl e)) e (patchAppendDataCmd_Run req NewResponse))"
  by (auto simp: patchAppendDataCmd_Run_def go_defs stops_at_def quiet_def is_engine_def
      Cons_eq_append_conv)

lemma patchAppendDataCmd_completes:
  "(GetApi req = Inr api \<and>
    index (StringArguments req) 0 = Some arg0 \<and>
    ParsePath api arg0 [WithResolve True] = Inr root \<and>
    NextFile req = Inr data \<and>
    AppendData (Object api) root data = Inr p \<longrightarrow>
    completes_with (AppendData_call root data (Inr p)) (PtrObject (Some \<lparr>Hash = Cid p\<rparr>))
      (patchAppendDataCmd_Run req NewResponse))"
  by (auto simp: patchAppendDataCmd_Run_def go_defs completes_with_def quiet_def is_engine_def
      Cons_eq_append_conv)

lemma patchAppendDataCmd_output_only:
  "((\<exists>v. SetOutput_call v \<in> set (calls (final (patchAppendDataCmd_Run req NewResponse)))) \<longrightarrow>
    (\<exists>api arg0 root data p.
       GetApi req = Inr api \<and>
       index (StringArguments req) 0 = Some arg0 \<and>
       ParsePath api arg0 [WithResolve True] = Inr root \<and>
       NextFile req = Inr data \<and>
       AppendData (Object api) root data = Inr p))"
  by (auto simp: patchAppendDataCmd_Run_def run_defs
      split: sum.splits option.splits prod.splits if_splits)

lemma patchSetDataCmd_stops_GetApi:
  "(GetApi req = Inl e \<longrightarrow>
    stops_at (GetApi_call (Some e)) e (patchSetDataCmd_Run req NewResponse))"
  by (auto simp: patchSetDataCmd_Run_def go_defs stops_at_def quiet_def is_engine_def
      Cons_eq_append_conv)

lemma patchSetDataCmd_stops_root:
  "(GetApi req = Inr api \<and>
    index (StringArguments req) 0 = Some arg0 \<and>
    ParsePath api arg0 [WithResolve True] = Inl e \<longrightarrow>
    stops_at (ParsePath_call arg0 [WithResolve True] (Inl e)) e (patchSetDataCmd_Run req NewResponse))"
  by (auto simp: patchSetDataCmd_Run_def go_defs stops_at_def quiet_def is_engine_def
      Cons_eq_append_conv)

lemma patchSetDataCmd_stops_NextFile:
  "(GetApi req = Inr api \<and>
    index (StringArguments req) 0 = Some arg0 \<and>
    ParsePath api arg0 [WithResolve True] = Inr root \<and>
    NextFile req = Inl e \<longrightarrow>
    stops_at (NextFile_call (Inl e)) e (patchSetDataCmd_Run req NewResponse))"
  by (auto simp: patchSetDataCmd_Run_def go_defs stops_at_def quiet_def is_engine_def
      Cons_eq_append_conv)

lemma patchSetDataCmd_stops_engine:
  "(GetApi req = Inr api \<and>
    index (StringArguments req) 0 = Some arg0 \<and>
    ParsePath api arg0 [WithResolve True] = Inr root \<and>
    NextFile req = Inr data \<and>
    SetData (Object api) root data = Inl e \<longrightarrow>
    stops_at (SetData_call root data (Inl e)) e (patchSetDataCmd_Run req NewResponse))"
  by (auto simp: patchSetDataCmd_Run_def go_defs stops_at_def quiet_def is_engine_def
      Cons_eq_append_conv)

lemma patchSetDataCmd_completes:
  "(GetApi req = Inr api \<and>
    index (StringArguments req) 0 = Some arg0 \<and>
    ParsePath api arg0 [WithResolve True] = Inr root \<and>
    NextFile req = Inr data \<and>
    SetData (Object api) root data = Inr p \<longrightarrow>
    completes_with (SetData_call root data (Inr p)) (PtrObject (Some \<lparr>Hash = Cid p\<rparr>))
      (patchSetDataCmd_Run req NewResponse))"
  by (auto simp: patchSetDataCmd_Run_def go_defs completes_with_def quiet_def is_engine_def
      Cons_eq_append_conv)

lemma patchSetDataCmd_output_only:
  "((\<exists>v. SetOutput_call v \<in> set (calls (final (patchSetDataCmd_Run req NewResponse)))) \<longrightarrow>
    (\<exists>api arg0 root data p.
       GetApi req = Inr api \<and>
       index (StringArguments req) 0 = Some arg0 \<and>
       ParsePath api arg0 [WithResolve True] = Inr root \<and>
       NextFile req = Inr data \<and>
       SetData (Object api) root data = Inr p))"
  by (auto simp: patchSetDataCmd_Run_def run_defs
      split: sum.splits option.splits prod.splits if_splits)

lemma patchRmLinkCmd_stops_GetApi:
  "(GetApi req = Inl e \<longrightarrow>
    stops_at (GetApi_call (Some e)) e (patchRmLinkCmd_Run req NewResponse))"
  by (auto simp: patchRmLinkCmd_Run_def go_defs stops_at_def quiet_def is_engine_def
      Cons_eq_append_conv)

lemma patchRmLinkCmd_stops_root:
  "(GetApi req = Inr api \<and>
    index (Arguments req) 0 = Some arg0 \<and>
    ParsePath api arg0 [WithResolve True] = Inl e \<longrightarrow>
    stops_at (ParsePath_call arg0 [WithResolve True] (Inl e)) e (patchRmLinkCmd_Run req NewResponse))"
  by (auto simp: patchRmLinkCmd_Run_def go_defs stops_at_def quiet_def is_engine_def
      Cons_eq_append_conv)

lemma patchRmLinkCmd_stops_engine:
  "(GetApi req = Inr api \<and>
    index (Arguments req) 0 = Some arg0 \<and>
    ParsePath api arg0 [WithResolve True] = Inr root \<and>
    index (Arguments req) 1 = Some nm \<and>
    RmLink (Object api) root nm = Inl e \<longrightarrow>
    stops_at (RmLink_call root nm (Inl e)) e (patchRmLinkCmd_Run req NewResponse))"
  by (auto simp: patchRmLinkCmd_Run_def go_defs stops_at_def quiet_def is_engine_def
      Cons_eq_append_conv)

lemma patchRmLinkCmd_completes:
  "(GetApi req = Inr api \<and>
    index (Arguments req) 0 = Some arg0 \<and>
    ParsePath api arg0 [WithResolve True] = Inr root \<and>
    index (Arguments req) 1 = Some nm \<and>
    RmLink (Object api) root nm = Inr p \<longrightarrow>
    completes_with (RmLink_call root nm (Inr p)) (PtrObject (Some \<lparr>Hash = Cid p\<rparr>))
      (patchRmLinkCmd_Run req NewResponse))"
  by (auto simp: patchRmLinkCmd_Run_def go_defs completes_with_def quiet_def is_engine_def
      Cons_eq_append_conv)

lemma patchRmLinkCmd_output_only:
  "((\<exists>v. SetOutput_call v \<in> set (calls (final (patchRmLinkCmd_Run req NewResponse)))) \<longrightarrow>
    (\<exists>api arg0 root nm p.
       GetApi req = Inr api \<and>
       index (Arguments req) 0 = Some arg0 \<and>
       ParsePath api arg0 [WithResolve True] = Inr root \<and>
       index (Arguments req) 1 = Some nm \<and>
       RmLink (Object api) root nm = Inr p))"
  by (auto simp: patchRmLinkCmd_Run_def run_defs
      split: sum.splits option.splits prod.splits if_splits)

lemma patchAddLinkCmd_stops_GetApi:
  "(GetApi req = Inl e \<longrightarrow>
    stops_at (GetApi_call (Some e)) e (patchAddLinkCmd_Run req NewResponse))"
  by (auto simp: patchAddLinkCmd_Run_def go_defs stops_at_def quiet_def is_engine_def
      Cons_eq_append_conv)

lemma patchAddLinkCmd_stops_root:
  "(GetApi req = Inr api \<and>
    index (Arguments req) 0 = Some arg0 \<and>
    ParsePath api arg0 [WithResolve True] = Inl e \<longrightarrow>
    stops_at (ParsePath_call arg0 [WithResolve True] (Inl e)) e (patchAddLinkCmd_Run req NewResponse))"
  by (auto simp: patchAddLinkCmd_Run_def go_defs stops_at_def quiet_def is_engine_def
      Cons_eq_append_conv)

lemma patchAddLinkCmd_stops_ref:
  "(GetApi req = Inr api \<and>
    index (Arguments req) 0 = Some arg0 \<and>
    ParsePath api arg0 [WithResolve True] = Inr root \<and>
    index (Arguments req) 1 = Some nm \<and>
    index (Arguments req) 2 = Some arg2 \<and>
    ParsePath api arg2 [WithResolve True] = Inl e \<longrightarrow>
    stops_at (ParsePath_call arg2 [WithResolve True] (Inl e)) e (patchAddLinkCmd_Run req NewResponse))"
  by (auto simp: patchAddLinkCmd_Run_def go_defs stops_at_def quiet_def is_engine_def
      Cons_eq_append_conv)

lemma patchAddLinkCmd_stops_Option:
  "(GetApi req = Inr api \<and>
    index (Arguments req) 0 = Some arg0 \<and>
    ParsePath api arg0 [WithResolve True] = Inr root \<and>
    index (Arguments req) 1 = Some nm \<and>
    index (Arguments req) 2 = Some arg2 \<and>
    ParsePath api arg2 [WithResolve True] = Inr child \<and>
    Option_Bool req ''create'' = (create, found, Some e) \<longrightarrow>
    stops_at (Option_Bool_call ''create'' (create, found, Some e)) e (patchAddLinkCmd_Run req NewResponse))"
  by (auto simp: patchAddLinkCmd_Run_def go_defs stops_at_def quiet_def is_engine_def
      Cons_eq_append_conv)

lemma patchAddLinkCmd_stops_engine:
  "(GetApi req = Inr api \<and>
    index (Arguments req) 0 = Some arg0 \<and>
    ParsePath api arg0 [WithResolve True] = Inr root \<and>
    index (Arguments req) 1 = Some nm \<and>
    index (Arguments req) 2 = Some arg2 \<and>
    ParsePath api arg2 [WithResolve True] = Inr child \<and>
    Option_Bool req ''create'' = (create, found, None) \<and>
    AddLink (Object api) root nm child [WithCreate create] = Inl e \<longrightarrow>
    stops_at (AddLink_call root nm child [WithCreate create] (Inl e)) e (patchAddLinkCmd_Run req NewResponse))"
  by (auto simp: patchAddLinkCmd_Run_def go_defs stops_at_def quiet_def is_engine_def
      Cons_eq_append_conv)

lemma patchAddLinkCmd_completes:
  "(GetApi req = Inr api \<and>
    index (Arguments req) 0 = Some arg0 \<and>
    ParsePath api arg0 [WithResolve True] = Inr root \<and>
    index (Arguments req) 1 = Some nm \<and>
    index (Arguments req) 2 = Some arg2 \<and>
    ParsePath api arg2 [WithResolve True] = Inr child \<and>
    Option_Bool req ''create'' = (create, found, None) \<and>
    AddLink (Object api) root nm child [WithCreate create] = Inr p \<longrightarrow>
    completes_with (AddLink_call root nm child [WithCreate create] (Inr p)) (PtrObject (Some \<lparr>Hash = Cid p\<rparr>))
      (patchAddLinkCmd_Run req NewResponse))"
  by (auto simp: patchAddLinkCmd_Run_def go_defs completes_with_def quiet_def is_engine_def
      Cons_eq_append_conv)

lemma patchAddLinkCmd_output_only:
  "((\<exists>v. SetOutput_call v \<in> set (calls (final (patchAddLinkCmd_Run req NewResponse)))) \<longrightarrow>
    (\<exists>api arg0 root nm arg2 child create found p.
       GetApi req = Inr api \<and>
       index (Arguments req) 0 = Some arg0 \<and>
       ParsePath api arg0 [WithResolve True] = Inr root \<and>
       index (Arguments req) 1 = Some nm \<and>
       index (Arguments req) 2 = Some arg2 \<and>
       ParsePath api arg2 [WithResolve True] = Inr child \<and>
       Option_Bool req ''create'' = (create, found, None) \<and>
       AddLink (Object api) root nm child [WithCreate create] = Inr p))"
  by (auto simp: patchAddLinkCmd_Run_def run_defs
      split: sum.splits option.splits prod.splits if_splits)

text \<open>
  C9. The four subcommands have the four handlers. On every request, whichever call is
  the first to return an error (\<open>GetApi\<close>, \<open>ParsePath\<close> of the root or of the ref,
  \<open>NextFile\<close>, the parsing of the option, or the engine call), the handler stops at
  it: the failed call is followed by \<open>SetError\<close> of its error and by nothing else, and
  no call before it was \<open>SetError\<close>, \<open>SetOutput\<close> or a call of the engine; so the
  engine is not called when the resolution of the root or of the ref fails. When every
  step succeeds the handler completes with the engine call followed by \<open>SetOutput\<close> and
  by nothing else, and \<open>SetOutput\<close> is called only on a request on which every step
  succeeds. A handler whose request carries the required arguments returns, and a
  handler that returns has called exactly one of \<open>SetError\<close> and \<open>SetOutput\<close>, once,
  as its last call.
\<close>

theorem patch_run_reports_once:
  "map (\<lambda>(n, c). (n, Run c)) (Subcommands (ObjectPatchCmd u t)) =
     [(''append-data'', Some patchAppendDataCmd_Run), (''add-link'', Some patchAddLinkCmd_Run),
      (''rm-link'', Some patchRmLinkCmd_Run), (''set-data'', Some patchSetDataCmd_Run)] \<and>
   (GetApi req = Inl e \<longrightarrow>
       stops_at (GetApi_call (Some e)) e (patchAppendDataCmd_Run req NewResponse)) \<and>
   (GetApi req = Inr api \<and>
       index (StringArguments req) 0 = Some arg0 \<and>
       ParsePath api arg0 [WithResolve True] = Inl e \<longrightarrow>
       stops_at (ParsePath_call arg0 [WithResolve True] (Inl e)) e (patchAppendDataCmd_Run req NewResponse)) \<and>
   (GetApi req = Inr api \<and>
       index (StringArguments req) 0 = Some arg0 \<and>
       ParsePath api arg0 [WithResolve True] = Inr root \<and>
       NextFile req = Inl e \<longrightarrow>
       stops_at (NextFile_call (Inl e)) e (patchAppendDataCmd_Run req NewResponse)) \<and>
   (GetApi req = Inr api \<and>
       index (StringArguments req) 0 = Some arg0 \<and>
       ParsePath api arg0 [WithResolve True] = Inr root \<and>
       NextFile req = Inr data \<and>
       AppendData (Object api) root data = Inl e \<longrightarrow>
       stops_at (AppendData_call root data (Inl e)) e (patchAppendDataCmd_Run req NewResponse)) \<and>
   (GetApi req = Inr api \<and>
       index (StringArguments req) 0 = Some arg0 \<and>
       ParsePath api arg0 [WithResolve True] = Inr root \<and>
       NextFile req = Inr data \<and>
       AppendData (Object api) root data = Inr p \<longrightarrow>
       completes_with (AppendData_call root data (Inr p)) (PtrObject (Some \<lparr>Hash = Cid p\<rparr>))
         (patchAppendDataCmd_Run req NewResponse)) \<and>
   ((\<exists>v. SetOutput_call v \<in> set (calls (final (patchAppendDataCmd_Run req NewResponse)))) \<longrightarrow>
       (\<exists>api arg0 root data p.
          GetApi req = Inr api \<and>
          index (StringArguments req) 0 = Some arg0 \<and>
          ParsePath api arg0 [WithResolve True] = Inr root \<and>
          NextFile req = Inr data \<and>
          AppendData (Object api) root data = Inr p)) \<and>
   (GetApi req = Inl e \<longrightarrow>
       stops_at (GetApi_call (Some e)) e (patchSetDataCmd_Run req NewResponse)) \<and>
   (GetApi req = Inr api \<and>
       index (StringArguments req) 0 = Some arg0 \<and>
       ParsePath api arg0 [WithResolve True] = Inl e \<longrightarrow>
       stops_at (ParsePath_call arg0 [WithResolve True] (Inl e)) e (patchSetDataCmd_Run req NewResponse)) \<and>
   (GetApi req = Inr api \<and>
       index (StringArguments req) 0 = Some arg0 \<and>
       ParsePath api arg0 [WithResolve True] = Inr root \<and>
       NextFile req = Inl e \<longrightarrow>
       stops_at (NextFile_call (Inl e)) e (patchSetDataCmd_Run req NewResponse)) \<and>
   (GetApi req = Inr api \<and>
       index (StringArguments req) 0 = Some arg0 \<and>
       ParsePath api arg0 [WithResolve True] = Inr root \<and>
       NextFile req = Inr data \<and>
       SetData (Object api) root data = Inl e \<longrightarrow>
       stops_at (SetData_call root data (Inl e)) e (patchSetDataCmd_Run req NewResponse)) \<and>
   (GetApi req = Inr api \<and>
       index (StringArguments req) 0 = Some arg0 \<and>
       ParsePath api arg0 [WithResolve True] = Inr root \<and>
       NextFile req = Inr data \<and>
       SetData (Object api) root data = Inr p \<longrightarrow>
       completes_with (SetData_call root data (Inr p)) (PtrObject (Some \<lparr>Hash = Cid p\<rparr>))
         (patchSetDataCmd_Run req NewResponse)) \<and>
   ((\<exists>v. SetOutput_call v \<in> set (calls (final (patchSetDataCmd_Run req NewResponse)))) \<longrightarrow>
       (\<exists>api arg0 root data p.
          GetApi req = Inr api \<and>
          index (StringArguments req) 0 = Some arg0 \<and>
          ParsePath api arg0 [WithResolve True] = Inr root \<and>
          NextFile req = Inr data \<and>
          SetData (Object api) root data = Inr p)) \<and>
   (GetApi req = Inl e \<longrightarrow>
       stops_at (GetApi_call (Some e)) e (patchRmLinkCmd_Run req NewResponse)) \<and>
   (GetApi req = Inr api \<and>
       index (Arguments req) 0 = Some arg0 \<and>
       ParsePath api arg0 [WithResolve True] = Inl e \<longrightarrow>
       stops_at (ParsePath_call arg0 [WithResolve True] (Inl e)) e (patchRmLinkCmd_Run req NewResponse)) \<and>
   (GetApi req = Inr api \<and>
       index (Arguments req) 0 = Some arg0 \<and>
       ParsePath api arg0 [WithResolve True] = Inr root \<and>
       index (Arguments req) 1 = Some nm \<and>
       RmLink (Object api) root nm = Inl e \<longrightarrow>
       stops_at (RmLink_call root nm (Inl e)) e (patchRmLinkCmd_Run req NewResponse)) \<and>
   (GetApi req = Inr api \<and>
       index (Arguments req) 0 = Some arg0 \<and>
       ParsePath api arg0 [WithResolve True] = Inr root \<and>
       index (Arguments req) 1 = Some nm \<and>
       RmLink (Object api) root nm = Inr p \<longrightarrow>
       completes_with (RmLink_call root nm (Inr p)) (PtrObject (Some \<lparr>Hash = Cid p\<rparr>))
         (patchRmLinkCmd_Run req NewResponse)) \<and>
   ((\<exists>v. SetOutput_call v \<in> set (calls (final (patchRmLinkCmd_Run req NewResponse)))) \<longrightarrow>
       (\<exists>api arg0 root nm p.
          GetApi req = Inr api \<and>
          index (Arguments req) 0 = Some arg0 \<and>
          ParsePath api arg0 [WithResolve True] = Inr root \<and>
          index (Arguments req) 1 = Some nm \<and>
          RmLink (Object api) root nm = Inr p)) \<and>
   (GetApi req = Inl e \<longrightarrow>
       stops_at (GetApi_call (Some e)) e (patchAddLinkCmd_Run req NewResponse)) \<and>
   (GetApi req = Inr api \<and>
       index (Arguments req) 0 = Some arg0 \<and>
       ParsePath api arg0 [WithResolve True] = Inl e \<longrightarrow>
       stops_at (ParsePath_call arg0 [WithResolve True] (Inl e)) e (patchAddLinkCmd_Run req NewResponse)) \<and>
   (GetApi req = Inr api \<and>
       index (Arguments req) 0 = Some arg0 \<and>
       ParsePath api arg0 [WithResolve True] = Inr root \<and>
       index (Arguments req) 1 = Some nm \<and>
       index (Arguments req) 2 = Some arg2 \<and>
       ParsePath api arg2 [WithResolve True] = Inl e \<longrightarrow>
       stops_at (ParsePath_call arg2 [WithResolve True] (Inl e)) e (patchAddLinkCmd_Run req NewResponse)) \<and>
   (GetApi req = Inr api \<and>
       index (Arguments req) 0 = Some arg0 \<and>
       ParsePath api arg0 [WithResolve True] = Inr root \<and>
       index (Arguments req) 1 = Some nm \<and>
       index (Arguments req) 2 = Some arg2 \<and>
       ParsePath api arg2 [WithResolve True] = Inr child \<and>
       Option_Bool req ''create'' = (create, found, Some e) \<longrightarrow>
       stops_at (Option_Bool_call ''create'' (create, found, Some e)) e (patchAddLinkCmd_Run req NewResponse)) \<and>
   (GetApi req = Inr api \<and>
       index (Arguments req) 0 = Some arg0 \<and>
       ParsePath api arg0 [WithResolve True] = Inr root \<and>
       index (Arguments req) 1 = Some nm \<and>
       index (Arguments req) 2 = Some arg2 \<and>
       ParsePath api arg2 [WithResolve True] = Inr child \<and>
       Option_Bool req ''create'' = (create, found, None) \<and>
       AddLink (Object api) root nm child [WithCreate create] = Inl e \<longrightarrow>
       stops_at (AddLink_call root nm child [WithCreate create] (Inl e)) e (patchAddLinkCmd_Run req NewResponse)) \<and>
   (GetApi req = Inr api \<and>
       index (Arguments req) 0 = Some arg0 \<and>
       ParsePath api arg0 [WithResolve True] = Inr root \<and>
       index (Arguments req) 1 = Some nm \<and>
       index (Arguments req) 2 = Some arg2 \<and>
       ParsePath api arg2 [WithResolve True] = Inr child \<and>
       Option_Bool req ''create'' = (create, found, None) \<and>
       AddLink (Object api) root nm child [WithCreate create] = Inr p \<longrightarrow>
       completes_with (AddLink_call root nm child [WithCreate create] (Inr p)) (PtrObject (Some \<lparr>Hash = Cid p\<rparr>))
         (patchAddLinkCmd_Run req NewResponse)) \<and>
   ((\<exists>v. SetOutput_call v \<in> set (calls (final (patchAddLinkCmd_Run req NewResponse)))) \<longrightarrow>
       (\<exists>api arg0 root nm arg2 child create found p.
          GetApi req = Inr api \<and>
          index (Arguments req) 0 = Some arg0 \<and>
          ParsePath api arg0 [WithResolve True] = Inr root \<and>
          index (Arguments req) 1 = Some nm \<and>
          index (Arguments req) 2 = Some arg2 \<and>
          ParsePath api arg2 [WithResolve True] = Inr child \<and>
          Option_Bool req ''create'' = (create, found, None) \<and>
          AddLink (Object api) root nm child [WithCreate create] = Inr p)) \<and>
   (\<forall>sub cmd run. map_of (Subcommands (ObjectPatchCmd u t)) sub = Some cmd \<and>
      Run cmd = Some run \<and> has_required_args cmd req \<longrightarrow>
      (\<exists>res. run req NewResponse = Returned res)) \<and>
   (\<forall>sub cmd run res. map_of (Subcommands (ObjectPatchCmd u t)) sub = Some cmd \<and>
      Run cmd = Some run \<and> run req NewResponse = Returned res \<longrightarrow>
      length (filter sets_result (calls res)) = 1 \<and> sets_result (last (calls res)))"
  by (intro conjI subcommand_handlers patchAppendDataCmd_stops_GetApi
      patchAppendDataCmd_stops_root patchAppendDataCmd_stops_NextFile
      patchAppendDataCmd_stops_engine patchAppendDataCmd_completes
      patchAppendDataCmd_output_only patchSetDataCmd_stops_GetApi
      patchSetDataCmd_stops_root patchSetDataCmd_stops_NextFile
      patchSetDataCmd_stops_engine patchSetDataCmd_completes
      patchSetDataCmd_output_only patchRmLinkCmd_stops_GetApi
      patchRmLinkCmd_stops_root patchRmLinkCmd_stops_engine
      patchRmLinkCmd_completes patchRmLinkCmd_output_only
      patchAddLinkCmd_stops_GetApi patchAddLinkCmd_stops_root
      patchAddLinkCmd_stops_ref patchAddLinkCmd_stops_Option
      patchAddLinkCmd_stops_engine patchAddLinkCmd_completes
      patchAddLinkCmd_output_only all_return all_once)

theorem patch_run_reports_once_witness:
  "GetApi unresolved_req = Inr example_api \<and>
   index (Arguments unresolved_req) 0 = Some ''QmRoot'' \<and>
   ParsePath example_api ''QmRoot'' [WithResolve True] = Inr \<lparr>Cid = ''QmRoot''\<rparr> \<and>
   index (Arguments unresolved_req) 1 = Some ''foo'' \<and>
   index (Arguments unresolved_req) 2 = Some '''' \<and>
   ParsePath example_api '''' [WithResolve True] = Inl ''empty path'' \<and>
   stops_at (ParsePath_call '''' [WithResolve True] (Inl ''empty path'')) ''empty path''
     (patchAddLinkCmd_Run unresolved_req NewResponse) \<and>
   filter is_engine (calls (final (patchAddLinkCmd_Run unresolved_req NewResponse))) = [] \<and>
   has_required_args (patchAddLinkCmd Inr example_TypeErr) unresolved_req \<and>
   length (filter sets_result (calls (final (patchAddLinkCmd_Run unresolved_req NewResponse)))) = 1"
proof -
  let ?out = "patchAddLinkCmd_Run unresolved_req NewResponse"
  have k: "GetApi unresolved_req = Inr example_api \<and>
      index (Arguments unresolved_req) 0 = Some ''QmRoot'' \<and>
      ParsePath example_api ''QmRoot'' [WithResolve True] = Inr \<lparr>Cid = ''QmRoot''\<rparr> \<and>
      index (Arguments unresolved_req) 1 = Some ''foo'' \<and>
      index (Arguments unresolved_req) 2 = Some '''' \<and>
      ParsePath example_api '''' [WithResolve True] = Inl ''empty path''"
    by (simp add: unresolved_req_def example_req_def example_api_def index_def)
  have h1: "map_of (Subcommands (ObjectPatchCmd Inr example_TypeErr)) ''add-link'' =
      Some (patchAddLinkCmd Inr example_TypeErr)"
    by (simp add: ObjectPatchCmd_def)
  have h2: "Run (patchAddLinkCmd Inr example_TypeErr) = Some patchAddLinkCmd_Run"
    by (simp add: patchAddLinkCmd_def)
  have h3: "has_required_args (patchAddLinkCmd Inr example_TypeErr) unresolved_req"
    by (simp add: cmd_defs patchAddLinkCmd_def unresolved_req_def example_req_def)
  note inst = patch_run_reports_once
      [where req = unresolved_req and u = Inr and t = example_TypeErr
        and e = "''empty path''" and api = example_api and ?arg0.0 = "''QmRoot''"
        and root = "\<lparr>Cid = ''QmRoot''\<rparr>" and data = "''hello''"
        and nm = "''foo''" and ?arg2.0 = "''''"
        and child = "\<lparr>Cid = ''QmChild''\<rparr>" and create = False
        and found = False and p = "\<lparr>Cid = ''QmRoot''\<rparr>"]
  have s: "stops_at (ParsePath_call '''' [WithResolve True] (Inl ''empty path'')) ''empty path'' ?out"
    using k inst by (elim conjE) (erule mp, intro conjI)
  then obtain res pre where res: "?out = Returned res"
    "calls res = pre @ [ParsePath_call '''' [WithResolve True] (Inl ''empty path''),
       SetError_call ''empty path'' ErrNormal]" "list_all quiet pre"
    unfolding stops_at_def by blast
  from res(3) have "filter is_engine pre = []"
    by (induction pre) (simp_all add: quiet_def)
  with res(1,2) have none: "filter is_engine (calls (final ?out)) = []"
    by (simp add: is_engine_def)
  have "length (filter sets_result (calls res)) = 1"
    using any_once [OF h1 h2 res(1)] by simp
  with res(1) have once: "length (filter sets_result (calls (final ?out))) = 1"
    by simp
  from k s none h3 once show ?thesis by simp
qed





section \<open>Properties of the facade\<close>

lemma facade_node_new:
  "index h api = Some (struct_CoreAPI n opts) \<Longrightarrow> facade_node (h @ [s]) api = Some n"
  by (auto simp: facade_node_def index_def nth_append split: if_splits)

lemma accessor_blind:
  fixes h :: "('n, 'o) heap" and f :: "'n \<Rightarrow> 'n"
  shows "\<forall>acc\<in>set [CoreAPI_Unixfs, CoreAPI_Block, CoreAPI_Dag, CoreAPI_Name, CoreAPI_Key,
      CoreAPI_Object, CoreAPI_Pin].
    acc api (map (map_struct f id) h) = (fst (acc api h), map (map_struct f id) (snd (acc api h)))"
  by (simp add: CoreAPI_Unixfs_def CoreAPI_Block_def CoreAPI_Dag_def CoreAPI_Name_def
      CoreAPI_Key_def CoreAPI_Object_def CoreAPI_Pin_def new_def)

text \<open>
  C5, as stated, asks every accessor for a fresh sub-API value. \<open>Unixfs\<close> constructs
  none: on the store that holds one facade at address 0 it returns that very address,
  and the store as it was.
\<close>

theorem unixfs_not_fresh_counterexample:
  "index example_heap 0 = Some (struct_CoreAPI 7 None) \<and>
   CoreAPI_Unixfs 0 example_heap = (ptr_UnixfsAPI 0, example_heap) \<and>
   \<not> fresh example_heap (fst (CoreAPI_Unixfs 0 example_heap))"
  by (simp add: example_heap_def NewCoreAPI_def new_def index_def CoreAPI_Unixfs_def fresh_def)

text \<open>
  C5, amended. \<open>NewCoreAPI\<close> binds the facade to its node. For a facade bound to a node,
  each of \<open>Block\<close>, \<open>Dag\<close>, \<open>Name\<close>, \<open>Key\<close>, \<open>Object\<close> and \<open>Pin\<close> allocates a
  fresh sub-API struct, leaves every struct of the store as it was, and the sub-API works
  on the node of the facade; \<open>Unixfs\<close> returns the address of the facade itself under
  the type of the sub-API, leaves the store as it was, and works on the same node. No
  accessor reads a node, through which all storage and network is reached: with the
  nodes of the store replaced by others, it returns the same reference, and the same
  store with the nodes replaced.
\<close>

theorem facade_accessors:
  assumes "index h api = Some (struct_CoreAPI n opts)"
  shows "index (snd (NewCoreAPI m h)) (ref_addr (fst (NewCoreAPI m h))) =
           Some (struct_CoreAPI m None) \<and>
         (\<forall>acc\<in>set [CoreAPI_Block, CoreAPI_Dag, CoreAPI_Name, CoreAPI_Key, CoreAPI_Object,
                     CoreAPI_Pin].
            fresh h (fst (acc api h)) \<and> (\<exists>s. snd (acc api h) = h @ [s]) \<and>
            node_of (snd (acc api h)) (fst (acc api h)) = Some n) \<and>
         CoreAPI_Unixfs api h = (ptr_UnixfsAPI api, h) \<and>
         node_of h (ptr_UnixfsAPI api) = Some n \<and>
         (\<forall>acc\<in>set [CoreAPI_Unixfs, CoreAPI_Block, CoreAPI_Dag, CoreAPI_Name, CoreAPI_Key,
                     CoreAPI_Object, CoreAPI_Pin].
            \<forall>f. acc api (map (map_struct f id) h) =
              (fst (acc api h), map (map_struct f id) (snd (acc api h))))"
proof -
  have bound: "index (snd (NewCoreAPI m h)) (ref_addr (fst (NewCoreAPI m h))) =
      Some (struct_CoreAPI m None)"
    by (simp add: NewCoreAPI_def new_def index_def)
  have same: "CoreAPI_Unixfs api h = (ptr_UnixfsAPI api, h)"
    by (simp add: CoreAPI_Unixfs_def)
  have node: "node_of h (ptr_UnixfsAPI api) = Some n"
    using assms by (simp add: node_of_def facade_node_def)
  have allocating: "\<forall>acc\<in>set [CoreAPI_Block, CoreAPI_Dag, CoreAPI_Name, CoreAPI_Key,
      CoreAPI_Object, CoreAPI_Pin].
    fresh h (fst (acc api h)) \<and> (\<exists>s. snd (acc api h) = h @ [s]) \<and>
    node_of (snd (acc api h)) (fst (acc api h)) = Some n"
  proof (rule ballI)
    fix acc :: "addr \<Rightarrow> ('a, 'b) heap \<Rightarrow> ref \<times> ('a, 'b) heap"
    assume "acc \<in> set [CoreAPI_Block, CoreAPI_Dag, CoreAPI_Name, CoreAPI_Key, CoreAPI_Object,
      CoreAPI_Pin]"
    then consider "acc = CoreAPI_Block" | "acc = CoreAPI_Dag" | "acc = CoreAPI_Name"
      | "acc = CoreAPI_Key" | "acc = CoreAPI_Object" | "acc = CoreAPI_Pin"
      by auto
    then show "fresh h (fst (acc api h)) \<and> (\<exists>s. snd (acc api h) = h @ [s]) \<and>
        node_of (snd (acc api h)) (fst (acc api h)) = Some n"
    proof cases
      case 1
      then show ?thesis
        using facade_node_new [OF assms]
        by (simp add: CoreAPI_Block_def new_def fresh_def node_of_def index_def)
    next
      case 2
      then show ?thesis
        using facade_node_new [OF assms]
        by (simp add: CoreAPI_Dag_def new_def fresh_def node_of_def index_def)
    next
      case 3
      then show ?thesis
        using facade_node_new [OF assms]
        by (simp add: CoreAPI_Name_def new_def fresh_def node_of_def index_def)
    next
      case 4
      then show ?thesis
        using facade_node_new [OF assms]
        by (simp add: CoreAPI_Key_def new_def fresh_def node_of_def index_def)
    next
      case 5
      then show ?thesis
        using facade_node_new [OF assms]
        by (simp add: CoreAPI_Object_def new_def fresh_def node_of_def index_def)
    next
      case 6
      then show ?thesis
        using facade_node_new [OF assms]
        by (simp add: CoreAPI_Pin_def new_def fresh_def node_of_def index_def)
    qed
  qed
  have blind: "\<forall>acc\<in>set [CoreAPI_Unixfs, CoreAPI_Block, CoreAPI_Dag, CoreAPI_Name,
      CoreAPI_Key, CoreAPI_Object, CoreAPI_Pin].
    \<forall>f. acc api (map (map_struct f id) h) =
      (fst (acc api h), map (map_struct f id) (snd (acc api h)))"
    using accessor_blind [of api _ h] by blast
  from bound allocating same node blind show ?thesis by (intro conjI)
qed

theorem facade_accessors_witness:
  "index example_heap 0 = Some (struct_CoreAPI 7 None) \<and>
   fresh example_heap (fst (CoreAPI_Object 0 example_heap)) \<and>
   node_of (snd (CoreAPI_Object 0 example_heap)) (fst (CoreAPI_Object 0 example_heap)) = Some 7 \<and>
   node_of example_heap (ptr_UnixfsAPI 0) = Some 7"
proof -
  have h: "index example_heap 0 = Some (struct_CoreAPI 7 None)"
    by (simp add: example_heap_def NewCoreAPI_def new_def index_def)
  have "CoreAPI_Object \<in> set [CoreAPI_Block, CoreAPI_Dag, CoreAPI_Name, CoreAPI_Key,
      CoreAPI_Object, CoreAPI_Pin :: addr \<Rightarrow> (nat, unit) heap \<Rightarrow> ref \<times> (nat, unit) heap]"
    by simp
  with facade_accessors [OF h, of 7] h show ?thesis by blast
qed

section \<open>Properties of the patch engine\<close>

lemma split_on_single: "c \<notin> set s \<Longrightarrow> split_on c s = [s]"
  by (induction s) (auto split: list.splits)

lemma addLinkAt_data:
  "addLinkAt get ident csize cr tgt sz obj seg rest = Inr obj' \<Longrightarrow> obj_data obj' = obj_data obj"
  by (cases rest) (auto split: sum.splits option.splits if_splits)

lemma filter_insertLink:
  assumes "n \<notin> set (map link_name ls)" and "link_name l = n"
  shows "filter (\<lambda>k. link_name k \<noteq> n) (insertLink l ls) = ls"
proof -
  have "filter (\<lambda>k. link_name k \<noteq> n) ls = ls"
    using assms(1) by (induction ls) auto
  with assms show ?thesis by (simp add: insertLink_def)
qed

text \<open>
  C6, as stated, is about every link name. With the name a/b, which is not in the empty
  link table, and intermediate Objects allowed, \<open>AddLink\<close> succeeds and installs a link
  named a; \<open>RmLink\<close> of a/b on the result then fails with \<open>NotFound\<close> and yields no
  Object.
\<close>

theorem add_then_rm_link_counterexample:
  "''a/b'' \<notin> set (map link_name (obj_links emptyObject)) \<and>
   patch_AddLink no_store example_ident example_csize emptyObject ''a/b'' ''QmT'' 0 True =
     Inr \<lparr>obj_data = [], obj_links =
       [\<lparr>link_name = ''a'', link_target = ''/b:QmT'', link_size = 0\<rparr>]\<rparr> \<and>
   patch_RmLink \<lparr>obj_data = [], obj_links =
       [\<lparr>link_name = ''a'', link_target = ''/b:QmT'', link_size = 0\<rparr>]\<rparr> ''a/b'' =
     Inl NotFound"
  by (simp add: patch_AddLink_def patch_RmLink_def emptyObject_def lookupLink_def
      insertLink_def example_ident_def example_csize_def)

text \<open>
  C6, amended. Spec-modelled. For every Object, every name without a path separator that
  is not in its link table, and every target, size and setting of \<open>allowIntermediate\<close>:
  \<open>AddLink\<close> succeeds, \<open>RmLink\<close> of the same name on the result succeeds, and the
  Object it yields has the data and the link table of the first one, so the same identity.
\<close>

theorem add_then_rm_link:
  assumes "CHR ''/'' \<notin> set n" and "n \<notin> set (map link_name (obj_links obj))"
  shows "\<exists>obj' obj''. patch_AddLink get ident csize obj n tgt sz create = Inr obj' \<and>
           patch_RmLink obj' n = Inr obj'' \<and> obj_data obj'' = obj_data obj \<and>
           obj_links obj'' = obj_links obj \<and>
           mset (obj_links obj'') = mset (obj_links obj) \<and> ident obj'' = ident obj"
proof -
  let ?l = "\<lparr>link_name = n, link_target = tgt, link_size = sz\<rparr>"
  let ?obj' = "obj\<lparr>obj_links := insertLink ?l (obj_links obj)\<rparr>"
  have add: "patch_AddLink get ident csize obj n tgt sz create = Inr ?obj'"
    using assms(1) by (simp add: patch_AddLink_def split_on_single)
  have "n \<in> set (map link_name (insertLink ?l (obj_links obj)))"
    using assms(2) by (simp add: insertLink_def)
  moreover have "filter (\<lambda>k. link_name k \<noteq> n) (insertLink ?l (obj_links obj)) = obj_links obj"
    using assms(2) by (rule filter_insertLink) simp
  ultimately have rm: "patch_RmLink ?obj' n = Inr obj"
    by (simp add: patch_RmLink_def)
  from add rm show ?thesis by simp
qed

theorem add_then_rm_link_witness:
  "CHR ''/'' \<notin> set ''foo'' \<and> ''foo'' \<notin> set (map link_name (obj_links example_object)) \<and>
   patch_AddLink no_store example_ident example_csize example_object ''foo'' ''QmF'' 5 False =
     Inr \<lparr>obj_data = ''world'', obj_links =
       [\<lparr>link_name = ''foo'', link_target = ''QmF'', link_size = 5\<rparr>]\<rparr> \<and>
   patch_RmLink \<lparr>obj_data = ''world'', obj_links =
       [\<lparr>link_name = ''foo'', link_target = ''QmF'', link_size = 5\<rparr>]\<rparr> ''foo'' =
     Inr example_object"
proof -
  have h1: "CHR ''/'' \<notin> set ''foo''" by simp
  have h2: "''foo'' \<notin> set (map link_name (obj_links example_object))"
    by (simp add: example_object_def)
  have a: "patch_AddLink no_store example_ident example_csize example_object ''foo'' ''QmF'' 5 False =
      Inr \<lparr>obj_data = ''world'', obj_links =
        [\<lparr>link_name = ''foo'', link_target = ''QmF'', link_size = 5\<rparr>]\<rparr>"
    by (simp add: patch_AddLink_def insertLink_def example_object_def)
  from add_then_rm_link [OF h1 h2, of no_store example_ident example_csize "''QmF''" 5 False] a
  obtain obj'' where
    "patch_RmLink \<lparr>obj_data = ''world'', obj_links =
       [\<lparr>link_name = ''foo'', link_target = ''QmF'', link_size = 5\<rparr>]\<rparr> ''foo'' = Inr obj''"
    "obj_data obj'' = obj_data example_object" "obj_links obj'' = obj_links example_object"
    by auto
  then have "patch_RmLink \<lparr>obj_data = ''world'', obj_links =
       [\<lparr>link_name = ''foo'', link_target = ''QmF'', link_size = 5\<rparr>]\<rparr> ''foo'' =
      Inr example_object"
    by simp
  with h1 h2 a show ?thesis by blast
qed

text \<open>
  C7. Spec-modelled. \<open>SetData\<close> and \<open>AppendData\<close> leave the link table of an Object as
  it is, and where \<open>AddLink\<close> or \<open>RmLink\<close> yields an Object, its data segment is that of
  the Object patched.
\<close>

theorem patch_orthogonal:
  "obj_links (patch_SetData obj d) = obj_links obj \<and>
   obj_links (patch_AppendData obj d) = obj_links obj \<and>
   (\<forall>obj'. patch_AddLink get ident csize obj n tgt sz create = Inr obj' \<longrightarrow>
      obj_data obj' = obj_data obj) \<and>
   (\<forall>obj'. patch_RmLink obj n = Inr obj' \<longrightarrow> obj_data obj' = obj_data obj)"
proof (intro conjI allI impI)
  show "obj_links (patch_SetData obj d) = obj_links obj"
    by (simp add: patch_SetData_def)
  show "obj_links (patch_AppendData obj d) = obj_links obj"
    by (simp add: patch_AppendData_def)
next
  fix obj'
  assume "patch_AddLink get ident csize obj n tgt sz create = Inr obj'"
  then show "obj_data obj' = obj_data obj"
    by (auto simp: patch_AddLink_def split: list.splits dest: addLinkAt_data)
next
  fix obj'
  assume "patch_RmLink obj n = Inr obj'"
  then show "obj_data obj' = obj_data obj"
    by (auto simp: patch_RmLink_def split: if_splits)
qed

theorem patch_orthogonal_witness:
  "patch_AddLink no_store example_ident example_csize example_object ''a/b'' ''QmT'' 0 True =
     Inr \<lparr>obj_data = ''world'', obj_links =
       [\<lparr>link_name = ''a'', link_target = ''/b:QmT'', link_size = 0\<rparr>]\<rparr> \<and>
   obj_data \<lparr>obj_data = ''world'', obj_links =
       [\<lparr>link_name = ''a'', link_target = ''/b:QmT'', link_size = 0\<rparr>]\<rparr> =
     obj_data example_object \<and>
   patch_RmLink \<lparr>obj_data = ''world'', obj_links =
       [\<lparr>link_name = ''a'', link_target = ''/b:QmT'', link_size = 0\<rparr>]\<rparr> ''a'' =
     Inr example_object \<and>
   obj_links (patch_SetData example_object ''hello'') = obj_links example_object"
proof -
  let ?obj' = "\<lparr>obj_data = ''world'', obj_links =
       [\<lparr>link_name = ''a'', link_target = ''/b:QmT'', link_size = 0\<rparr>]\<rparr>"
  have a: "patch_AddLink no_store example_ident example_csize example_object ''a/b'' ''QmT'' 0 True =
      Inr ?obj'"
    by (simp add: patch_AddLink_def emptyObject_def lookupLink_def insertLink_def
        example_ident_def example_csize_def example_object_def)
  have r: "patch_RmLink ?obj' ''a'' = Inr example_object"
    by (simp add: patch_RmLink_def example_object_def)
  from patch_orthogonal [of example_object "''hello''" no_store example_ident example_csize
      "''a/b''" "''QmT''" 0 True] a
  have "obj_data ?obj' = obj_data example_object"
    and "obj_links (patch_SetData example_object ''hello'') = obj_links example_object"
    by blast+
  with a r show ?thesis by blast
qed

text \<open>
  C8. Spec-modelled. Appending a and then b gives the data segment that appending a
  followed by b gives: the data of the Object, then a, then b.
\<close>

theorem append_data_assoc:
  "obj_data (patch_AppendData (patch_AppendData obj a) b) =
     obj_data (patch_AppendData obj (a @ b)) \<and>
   obj_data (patch_AppendData (patch_AppendData obj a) b) = obj_data obj @ a @ b"
  by (simp add: patch_AppendData_def)


end
